theory Spec2Isabelle
  imports Main
begin

section \<open>The store: tables of \<open>DatabaseManager.initialize_database\<close>\<close>

text \<open>
  The program keeps all durable state in six MySQL tables. Each table is a list of rows, a
  row is a record with the columns that the modelled statements read or write (display
  columns such as Genre, Author, Publisher, Email, Phone, the password hash and the
  timestamps are left out; so are the surrogate keys OrderItemID and LogID, which no
  statement of the program reads).

  A Python \<open>str\<close> is a list of Unicode code points. Amounts of money are integers of cents:
  the columns are \<open>DECIMAL(10,2)\<close>, the cart shows them with \<open>:.2f\<close> and reads them back with
  \<open>float\<close>, and the store rounds what it receives to two places again, so a cent value
  survives the round trip. The store is taken in its default strict mode, where a value
  outside the range of its column is an error. The one value the program computes for
  such a column is the order total, and \<open>DECIMAL(10,2)\<close> is checked for it; the quantity
  and the price of a cart line were read from columns of the same types.
\<close>

type_synonym pystr = "nat list"

datatype role = Manager | Clerk | Librarian

datatype order_status = Pending | Completed | Cancelled

datatype log_action = INSERT | UPDATE | DELETE

record staff_row =
  StaffID :: nat
  Name :: pystr
  Role :: role

record book_row =
  BookID :: nat
  BookName :: pystr
  Quantity :: int
  Price :: int
  Update_by :: nat

record account_row =
  CustomerID :: nat
  CustomerName :: pystr

record order_row =
  OrderID :: nat
  o_CustomerID :: nat
  o_StaffID :: nat
  OrderDate :: nat
  TotalAmount :: int
  Status :: order_status

record order_item_row =
  oi_OrderID :: nat
  oi_BookID :: nat
  oi_Quantity :: int
  oi_Price :: int

record book_log_row =
  log_BookID :: nat
  Action :: log_action
  ActionBy :: nat

text \<open>
  \<open>next_OrderID\<close> is the AUTO_INCREMENT counter of Orders, the value that
  \<open>cursor.lastrowid\<close> returns after the insert. A rollback restores rows, not the counter.
\<close>

record database =
  Staff :: "staff_row list"
  Books :: "book_row list"
  Accounts :: "account_row list"
  Orders :: "order_row list"
  OrderItems :: "order_item_row list"
  BookLog :: "book_log_row list"
  next_OrderID :: nat

text \<open>
  What the connector raises: when a statement breaks a constraint of the schema (the
  \<open>CHECK\<close> of a column, a \<open>FOREIGN KEY\<close>, the range of a column), and when
  \<open>start_transaction\<close> is called while a transaction is in progress. \<open>ValueError\<close> is
  Python's own, raised by \<open>int\<close> and \<open>float\<close>.
\<close>

datatype py_exception =
    ValueError
  | Check_constraint_violated
  | Foreign_key_constraint_fails
  | Out_of_range_value
  | Transaction_already_in_progress

section \<open>The application object\<close>

record session =
  session_id :: nat
  session_name :: pystr
  session_role :: role

text \<open>A row of the cart Treeview: (Book ID, Book Name, Quantity, Price, Subtotal).\<close>

record cart_line =
  cart_book_id :: nat
  cart_book_name :: pystr
  cart_quantity :: int
  cart_price :: int
  cart_subtotal :: int

text \<open>A row of the pending-orders Treeview: (Order ID, Customer, Date, Total, Status).\<close>

record pending_row =
  row_order_id :: nat
  row_customer :: pystr
  row_date :: nat
  row_total :: int
  row_status :: order_status

text \<open>
  The application object with its one connection. \<open>db\<close> is the committed store.
  \<open>in_transaction\<close> is the connection's flag of that name: the connection is opened with
  \<open>autocommit=False\<close>, so the first statement after a commit or rollback, a SELECT
  included, begins a transaction, which stays open until the next commit or rollback.
\<close>

record app =
  db :: database
  in_transaction :: bool
  current_staff :: session
  cart_tree :: "cart_line list"
  pending_orders_tree :: "pending_row list"
  selected_staff_id :: "nat option"

text \<open>
  \<open>execute_query(..., fetch=True)\<close> runs a SELECT and returns without committing.
  \<open>commit\<close> and \<open>rollback\<close> end the transaction; what a failed transaction wrote is
  undone by taking the application object as it was before.
\<close>

definition fetch :: "app \<Rightarrow> app" where
  "fetch st = st\<lparr>in_transaction := True\<rparr>"

definition commit :: "app \<Rightarrow> app" where
  "commit st = st\<lparr>in_transaction := False\<rparr>"

definition rollback :: "app \<Rightarrow> app" where
  "rollback st = st\<lparr>in_transaction := False\<rparr>"

text \<open>Every message box that the modelled handlers can open.\<close>

datatype message =
    No_staff_member_selected
  | Cannot_delete_currently_logged_in_staff
  | Cannot_delete_the_last_manager
  | Staff_member_deleted_successfully
  | Failed_to_delete_staff py_exception
  | Operation_failed py_exception
  | Cannot_delete_book_no_manager_exists_for_logging
  | Book_deleted_successfully
  | Failed_to_delete py_exception
  | Please_select_a_book
  | Quantity_must_be_positive
  | Book_not_found
  | Only_available_in_stock int
  | Failed_to_add_to_cart py_exception
  | Please_select_a_customer
  | Cart_is_empty
  | Order_placed_successfully nat order_status
  | Failed_to_place_order py_exception
  | Please_select_an_order
  | Only_pending_orders_can_be_modified
  | Order_updated_to nat order_status
  | Failed_to_update_order py_exception

section \<open>Staff deletion\<close>

text \<open>\<open>SELECT COUNT(*) FROM Staff WHERE Role='Manager'\<close>\<close>

definition count_managers :: "database \<Rightarrow> nat" where
  "count_managers d = length (filter (\<lambda>r. Role r = Manager) (Staff d))"

text \<open>
  \<open>DELETE FROM Staff WHERE StaffID = %s\<close>. Books.Update_by, Orders.StaffID and
  BookLog.ActionBy reference Staff without an \<open>ON DELETE\<close> clause, so a referenced row
  cannot be deleted.
\<close>

definition staff_is_referenced :: "database \<Rightarrow> nat \<Rightarrow> bool" where
  "staff_is_referenced d sid \<longleftrightarrow>
     sid \<in> Update_by ` set (Books d) \<or> sid \<in> o_StaffID ` set (Orders d)
     \<or> sid \<in> ActionBy ` set (BookLog d)"

definition delete_from_Staff :: "nat \<Rightarrow> database \<Rightarrow> py_exception + database" where
  "delete_from_Staff sid d =
     (if sid \<in> StaffID ` set (Staff d) \<and> staff_is_referenced d sid
      then Inl Foreign_key_constraint_fails
      else Inr (d\<lparr>Staff := filter (\<lambda>r. StaffID r \<noteq> sid) (Staff d)\<rparr>))"

text \<open>
  \<open>BookstoreApp.delete_staff\<close>. The argument is the answer to the confirmation dialog.
  The role and the count are read with \<open>fetch=True\<close>. A successful \<open>execute_query\<close>
  commits, and the lists are read again after it; a failing one rolls back, opens its
  own message box and raises again, and the handler's \<open>except\<close> opens the second one.
\<close>

definition delete_staff :: "bool \<Rightarrow> app \<Rightarrow> message list \<times> app" where
  "delete_staff confirmed st =
     (case selected_staff_id st of
        None \<Rightarrow> ([No_staff_member_selected], st)
      | Some staff_id \<Rightarrow>
          if \<not> confirmed then ([], st)
          else if session_id (current_staff st) = staff_id
          then ([Cannot_delete_currently_logged_in_staff], st)
          else
            let staff = map Role (filter (\<lambda>r. StaffID r = staff_id) (Staff (db st)))
            in if (case staff of [] \<Rightarrow> False | r # _ \<Rightarrow> r = Manager)
                  \<and> count_managers (db st) \<le> 1
               then ([Cannot_delete_the_last_manager], fetch st)
               else (case delete_from_Staff staff_id (db st) of
                       Inl e \<Rightarrow> ([Operation_failed e, Failed_to_delete_staff e], rollback st)
                     | Inr d \<Rightarrow>
                         ([Staff_member_deleted_successfully], fetch (commit (st\<lparr>db := d\<rparr>)))))"

section \<open>Python's \<open>str.strip\<close>, \<open>int\<close> and \<open>float\<close>\<close>

text \<open>
  \<open>str.isspace\<close> for one code point (the table of CPython's \<open>_PyUnicode_IsWhitespace\<close>);
  the same code points are matched by \<open>\s\<close> in a \<open>str\<close> pattern.
\<close>

definition py_isspace :: "nat \<Rightarrow> bool" where
  "py_isspace c \<longleftrightarrow>
     (9 \<le> c \<and> c \<le> 13) \<or> (28 \<le> c \<and> c \<le> 32) \<or> c = 133 \<or> c = 160 \<or> c = 5760
     \<or> (8192 \<le> c \<and> c \<le> 8202) \<or> c = 8232 \<or> c = 8233 \<or> c = 8239 \<or> c = 8287
     \<or> c = 12288"

definition py_strip :: "pystr \<Rightarrow> pystr" where
  "py_strip s = rev (dropWhile py_isspace (rev (dropWhile py_isspace s)))"

text \<open>
  \<open>int\<close> and \<open>float\<close> skip white space around the number too, but not the four
  separators U+001C to U+001F.
\<close>

definition number_space :: "nat \<Rightarrow> bool" where
  "number_space c \<longleftrightarrow> py_isspace c \<and> \<not> (28 \<le> c \<and> c \<le> 31)"

definition number_strip :: "pystr \<Rightarrow> pystr" where
  "number_strip s = rev (dropWhile number_space (rev (dropWhile number_space s)))"

text \<open>
  The decimal digits (general category Nd, Unicode 14): each run of ten starts at one of
  these code points, with the digit zero. They are what \<open>\d\<close> matches and what \<open>int\<close> and
  \<open>float\<close> read as digits.
\<close>

definition decimal_zeros :: "nat list" where
  "decimal_zeros =
     [48, 1632, 1776, 1984, 2406, 2534, 2662, 2790, 2918, 3046, 3174, 3302, 3430, 3558,
      3664, 3792, 3872, 4160, 4240, 6112, 6160, 6470, 6608, 6784, 6800, 6992, 7088, 7232,
      7248, 42528, 43216, 43264, 43472, 43504, 43600, 44016, 65296, 66720, 68912, 69734,
      69872, 69942, 70096, 70384, 70736, 70864, 71248, 71360, 71472, 71904, 72016, 72784,
      73040, 73120, 92768, 92864, 93008, 120782, 120792, 120802, 120812, 120822, 123200,
      123632, 125264, 130032]"

definition py_decimal :: "nat \<Rightarrow> nat option" where
  "py_decimal c =
     (case filter (\<lambda>z. z \<le> c \<and> c < z + 10) decimal_zeros of
        [] \<Rightarrow> None
      | z # _ \<Rightarrow> Some (c - z))"

text \<open>
  \<open>digitpart ::= digit (["_"] digit)*\<close>: the whole string must be one digit part; the
  result is the number it denotes. \<open>digits_after\<close> reads what follows a digit.
\<close>

fun digits_after :: "nat \<Rightarrow> pystr \<Rightarrow> nat option" where
  "digits_after acc [] = Some acc"
| "digits_after acc [c] =
     (case py_decimal c of None \<Rightarrow> None | Some v \<Rightarrow> Some (10 * acc + v))"
| "digits_after acc (c # c' # cs) =
     (if c = 95
      then (case py_decimal c' of
              None \<Rightarrow> None
            | Some v \<Rightarrow> digits_after (10 * acc + v) cs)
      else (case py_decimal c of
              None \<Rightarrow> None
            | Some v \<Rightarrow> digits_after (10 * acc + v) (c' # cs)))"

definition digitpart :: "pystr \<Rightarrow> nat option" where
  "digitpart s =
     (case s of
        [] \<Rightarrow> None
      | c # cs \<Rightarrow> (case py_decimal c of None \<Rightarrow> None | Some v \<Rightarrow> digits_after v cs))"

text \<open>An optional sign: \<open>True\<close> for a minus, and the rest of the string.\<close>

definition split_sign :: "pystr \<Rightarrow> bool \<times> pystr" where
  "split_sign s =
     (case s of
        [] \<Rightarrow> (False, [])
      | c # cs \<Rightarrow> if c = 45 then (True, cs) else if c = 43 then (False, cs) else (False, s))"

text \<open>
  \<open>int(s)\<close> for a string \<open>s\<close>, base ten. CPython refuses a string of more than 4300
  digits (the default of \<open>sys.set_int_max_str_digits\<close>), with a \<open>ValueError\<close> too.
\<close>

definition py_int :: "pystr \<Rightarrow> py_exception + int" where
  "py_int s =
     (let (neg, body) = split_sign (number_strip s)
      in case digitpart body of
           None \<Rightarrow> Inl ValueError
         | Some n \<Rightarrow>
             if 4300 < length (filter (\<lambda>c. c \<noteq> 95) body) then Inl ValueError
             else Inr (if neg then - int n else int n))"

text \<open>
  The value of \<open>float(s)\<close>: not a number, an infinity with its sign, or the double nearest
  to a decimal number; \<open>Float_num neg m e\<close> stands for the double that \<open>m \<times> 10^e\<close>, negated
  when \<open>neg\<close>, rounds to.
\<close>

datatype pyfloat = Float_nan | Float_inf bool | Float_num bool nat int

definition ascii_lower :: "nat \<Rightarrow> nat" where
  "ascii_lower c = (if 65 \<le> c \<and> c \<le> 90 then c + 32 else c)"

text \<open>
  \<open>number ::= [digitpart] "." digitpart | digitpart ["."]\<close>, given as mantissa and
  exponent: the digits after the point only lower the exponent.
\<close>

definition fraction_digits :: "pystr \<Rightarrow> nat" where
  "fraction_digits s = length (filter (\<lambda>c. c \<noteq> 95) s)"

definition float_number :: "pystr \<Rightarrow> (nat \<times> int) option" where
  "float_number s =
     (let whole = takeWhile (\<lambda>c. c \<noteq> 46) s; rest = dropWhile (\<lambda>c. c \<noteq> 46) s
      in case rest of
           [] \<Rightarrow> (case digitpart whole of None \<Rightarrow> None | Some n \<Rightarrow> Some (n, 0))
         | _ # frac \<Rightarrow>
             if frac = [] then (case digitpart whole of None \<Rightarrow> None | Some n \<Rightarrow> Some (n, 0))
             else (case digitpart frac of
                     None \<Rightarrow> None
                   | Some f \<Rightarrow>
                       if whole = [] then Some (f, - int (fraction_digits frac))
                       else (case digitpart whole of
                               None \<Rightarrow> None
                             | Some n \<Rightarrow>
                                 Some (n * 10 ^ fraction_digits frac + f,
                                       - int (fraction_digits frac)))))"

text \<open>\<open>exponent ::= ("e" | "E") [sign] digitpart\<close>, without its letter.\<close>

definition float_exponent :: "pystr \<Rightarrow> int option" where
  "float_exponent s =
     (let (neg, body) = split_sign s
      in case digitpart body of
           None \<Rightarrow> None
         | Some n \<Rightarrow> Some (if neg then - int n else int n))"

definition float_literal :: "pystr \<Rightarrow> (nat \<times> int) option" where
  "float_literal s =
     (let is_e = (\<lambda>c. c = 101 \<or> c = 69);
          mantissa = takeWhile (\<lambda>c. \<not> is_e c) s; rest = dropWhile (\<lambda>c. \<not> is_e c) s
      in case float_number mantissa of
           None \<Rightarrow> None
         | Some (m, e) \<Rightarrow>
             (case rest of
                [] \<Rightarrow> Some (m, e)
              | _ # ex \<Rightarrow> (case float_exponent ex of None \<Rightarrow> None | Some x \<Rightarrow> Some (m, e + x))))"

text \<open>\<open>float(s)\<close> for a string \<open>s\<close>.\<close>

definition py_float :: "pystr \<Rightarrow> py_exception + pyfloat" where
  "py_float s =
     (let (neg, body) = split_sign (number_strip s); word = map ascii_lower body
      in if word = [105, 110, 102] \<or> word = [105, 110, 102, 105, 110, 105, 116, 121]
         then Inr (Float_inf neg)
         else if word = [110, 97, 110] then Inr Float_nan
         else (case float_literal body of
                 None \<Rightarrow> Inl ValueError
               | Some (m, e) \<Rightarrow> Inr (Float_num neg m e)))"

text \<open>
  \<open>x >= 0\<close> on the double. A negative decimal number gives True when it rounds to
  \<open>-0.0\<close>, which is when its magnitude is at most \<open>2^-1075\<close>, half of the least positive
  double (a tie rounds to the even neighbour, zero).
\<close>

fun float_ge_zero :: "pyfloat \<Rightarrow> bool" where
  "float_ge_zero Float_nan = False"
| "float_ge_zero (Float_inf neg) = (\<not> neg)"
| "float_ge_zero (Float_num neg m e) =
     (\<not> neg \<or> (if 0 \<le> e then m = 0 else m * 2 ^ 1075 \<le> 10 ^ nat (- e)))"

section \<open>\<open>re.fullmatch\<close> for the three patterns\<close>

text \<open>
  Each of the three patterns is a sequence of character classes, every class with a
  repetition \<open>{lo,hi}\<close> (\<open>?\<close> is \<open>{0,1}\<close>, \<open>+\<close> is \<open>{1,}\<close>, a bare class \<open>{1,1}\<close>). Under
  \<open>fullmatch\<close> the anchors \<open>^\<close> and \<open>$\<close> add nothing. The string matches when some choice
  of the repetition counts consumes it whole.
\<close>

datatype atom = Atom "nat \<Rightarrow> bool" nat "nat option"

fun fullmatch :: "atom list \<Rightarrow> pystr \<Rightarrow> bool" where
  "fullmatch [] s = (s = [])"
| "fullmatch (Atom cls lo hi # atoms) s =
     (let run = length (takeWhile cls s);
          most = (case hi of None \<Rightarrow> run | Some h \<Rightarrow> min h run)
      in list_ex (\<lambda>k. fullmatch atoms (drop k s)) [lo ..< Suc most])"

definition is_upper :: "nat \<Rightarrow> bool" where
  "is_upper c \<longleftrightarrow> 65 \<le> c \<and> c \<le> 90"

definition is_lower :: "nat \<Rightarrow> bool" where
  "is_lower c \<longleftrightarrow> 97 \<le> c \<and> c \<le> 122"

definition is_digit :: "nat \<Rightarrow> bool" where
  "is_digit c \<longleftrightarrow> py_decimal c \<noteq> None"

definition is_ascii_digit :: "nat \<Rightarrow> bool" where
  "is_ascii_digit c \<longleftrightarrow> 48 \<le> c \<and> c \<le> 57"

section \<open>\<open>Validators\<close>\<close>

text \<open>\<open>^[A-Za-z\s]{2,50}$\<close>\<close>

definition name_pattern :: "atom list" where
  "name_pattern = [Atom (\<lambda>c. is_upper c \<or> is_lower c \<or> py_isspace c) 2 (Some 50)]"

definition validate_name :: "pystr \<Rightarrow> bool" where
  "validate_name name = fullmatch name_pattern (py_strip name)"

text \<open>\<open>^\+?\d{10,15}$\<close>\<close>

definition phone_pattern :: "atom list" where
  "phone_pattern = [Atom (\<lambda>c. c = 43) 0 (Some 1), Atom is_digit 10 (Some 15)]"

definition validate_phone :: "pystr \<Rightarrow> bool" where
  "validate_phone phone = fullmatch phone_pattern (py_strip phone)"

text \<open>\<open>^[a-zA-Z0-9._%+-]+@[a-zA-Z0-9.-]+\.[a-zA-Z]{2,}$\<close>\<close>

definition email_pattern :: "atom list" where
  "email_pattern =
     [Atom (\<lambda>c. is_lower c \<or> is_upper c \<or> is_ascii_digit c
                 \<or> c = 46 \<or> c = 95 \<or> c = 37 \<or> c = 43 \<or> c = 45) 1 None,
      Atom (\<lambda>c. c = 64) 1 (Some 1),
      Atom (\<lambda>c. is_lower c \<or> is_upper c \<or> is_ascii_digit c \<or> c = 46 \<or> c = 45) 1 None,
      Atom (\<lambda>c. c = 46) 1 (Some 1),
      Atom (\<lambda>c. is_lower c \<or> is_upper c) 2 None]"

definition validate_email :: "pystr \<Rightarrow> bool" where
  "validate_email email = fullmatch email_pattern (py_strip email)"

text \<open>
  \<open>validate_price\<close> and \<open>validate_quantity\<close> catch \<open>ValueError\<close> and nothing else, so the
  result is a boolean or the exception that got through.
\<close>

definition validate_price :: "pystr \<Rightarrow> py_exception + bool" where
  "validate_price price =
     (case py_float price of
        Inr x \<Rightarrow> Inr (float_ge_zero x)
      | Inl e \<Rightarrow> if e = ValueError then Inr False else Inl e)"

definition validate_quantity :: "pystr \<Rightarrow> py_exception + bool" where
  "validate_quantity quantity =
     (case py_int quantity of
        Inr n \<Rightarrow> Inr (n > 0)
      | Inl e \<Rightarrow> if e = ValueError then Inr False else Inl e)"

section \<open>Statements on Books and the triggers\<close>

text \<open>Running one statement after another inside a transaction: the first error ends it.\<close>

definition and_then ::
  "py_exception + database \<Rightarrow> (database \<Rightarrow> py_exception + database) \<Rightarrow> py_exception + database"
where
  "and_then r f = (case r of Inl e \<Rightarrow> Inl e | Inr d \<Rightarrow> f d)"

text \<open>
  \<open>UPDATE Books SET Quantity = Quantity - %s WHERE BookID = %s\<close>. The column carries
  \<open>CHECK (Quantity >= 0)\<close>. For every row it changes, the trigger AfterBookUpdate adds
  a BookLog row whose ActionBy, the row's Update_by, must be a Staff row.
\<close>

definition update_Books_Quantity :: "int \<Rightarrow> nat \<Rightarrow> database \<Rightarrow> py_exception + database" where
  "update_Books_Quantity quantity book_id d =
     (let hit = filter (\<lambda>r. BookID r = book_id) (Books d)
      in if list_ex (\<lambda>r. Quantity r - quantity < 0) hit then Inl Check_constraint_violated
         else if list_ex (\<lambda>r. Update_by r \<notin> StaffID ` set (Staff d)) hit
         then Inl Foreign_key_constraint_fails
         else Inr (d\<lparr>Books :=
                        map (\<lambda>r. if BookID r = book_id
                                  then r\<lparr>Quantity := Quantity r - quantity\<rparr> else r) (Books d),
                      BookLog :=
                        BookLog d
                        @ map (\<lambda>r. \<lparr>log_BookID = BookID r, Action = UPDATE,
                                     ActionBy = Update_by r\<rparr>) hit\<rparr>))"

text \<open>
  The trigger BeforeBookDelete for the row \<open>old\<close>:
  \<open>SELECT StaffID FROM Staff WHERE Role='Manager' LIMIT 1\<close>, and a DELETE entry in
  BookLog when there is such a Manager.
\<close>

definition first_manager :: "database \<Rightarrow> nat option" where
  "first_manager d =
     (case filter (\<lambda>r. Role r = Manager) (Staff d) of
        [] \<Rightarrow> None
      | r # _ \<Rightarrow> Some (StaffID r))"

definition BeforeBookDelete :: "book_row \<Rightarrow> database \<Rightarrow> database" where
  "BeforeBookDelete old d =
     (case first_manager d of
        None \<Rightarrow> d
      | Some manager_id \<Rightarrow>
          d\<lparr>BookLog := BookLog d @ [\<lparr>log_BookID = BookID old, Action = DELETE,
                                       ActionBy = manager_id\<rparr>]\<rparr>)"

text \<open>
  \<open>DELETE FROM Books WHERE BookID = %s\<close>. OrderItems.BookID references Books without an
  \<open>ON DELETE\<close> clause, so a book on an order line cannot be deleted; BookLog.BookID
  references Books \<open>ON DELETE CASCADE\<close>, so the log rows of a deleted book go with it.
\<close>

definition delete_from_Books :: "nat \<Rightarrow> database \<Rightarrow> py_exception + database" where
  "delete_from_Books book_id d =
     (let hit = filter (\<lambda>r. BookID r = book_id) (Books d)
      in if hit = [] then Inr d
         else if book_id \<in> oi_BookID ` set (OrderItems d) then Inl Foreign_key_constraint_fails
         else let d1 = fold BeforeBookDelete hit d
              in Inr (d1\<lparr>Books := filter (\<lambda>r. BookID r \<noteq> book_id) (Books d1),
                         BookLog := filter (\<lambda>l. log_BookID l \<noteq> book_id) (BookLog d1)\<rparr>))"

text \<open>
  \<open>BookstoreApp.delete_selected_book\<close>: the selection of the combo box (the id before
  \<open>" - "\<close>, or nothing) and the answer to the confirmation dialog. The Manager is
  looked up with \<open>fetch=True\<close>; the lists are read again after a successful delete.
\<close>

definition delete_selected_book :: "nat option \<Rightarrow> bool \<Rightarrow> app \<Rightarrow> message list \<times> app" where
  "delete_selected_book selection confirmed st =
     (case selection of
        None \<Rightarrow> ([], st)
      | Some book_id \<Rightarrow>
          if \<not> confirmed then ([], st)
          else if first_manager (db st) = None
          then ([Cannot_delete_book_no_manager_exists_for_logging], fetch st)
          else (case delete_from_Books book_id (db st) of
                  Inl e \<Rightarrow> ([Operation_failed e, Failed_to_delete e], rollback st)
                | Inr d \<Rightarrow> ([Book_deleted_successfully], fetch (commit (st\<lparr>db := d\<rparr>)))))"

section \<open>The cart\<close>

text \<open>
  \<open>BookstoreApp.add_to_cart\<close>: the selection of the book combo box and the text of the
  quantity spin box. The book is read with \<open>fetch=True\<close>. The line keeps the price read
  here and the subtotal computed here.
\<close>

definition add_to_cart :: "nat option \<Rightarrow> pystr \<Rightarrow> app \<Rightarrow> message list \<times> app" where
  "add_to_cart book_selection order_qty st =
     (case book_selection of
        None \<Rightarrow> ([Please_select_a_book], st)
      | Some book_id \<Rightarrow>
          (case py_int order_qty of
             Inl e \<Rightarrow> ([Failed_to_add_to_cart e], st)
           | Inr quantity \<Rightarrow>
               if quantity \<le> 0 then ([Quantity_must_be_positive], st)
               else (case filter (\<lambda>r. BookID r = book_id) (Books (db st)) of
                       [] \<Rightarrow> ([Book_not_found], fetch st)
                     | book # _ \<Rightarrow>
                         if quantity > Quantity book
                         then ([Only_available_in_stock (Quantity book)], fetch st)
                         else ([], fetch st\<lparr>cart_tree := cart_tree st @
                                   [\<lparr>cart_book_id = book_id, cart_book_name = BookName book,
                                     cart_quantity = quantity, cart_price = Price book,
                                     cart_subtotal = Price book * quantity\<rparr>]\<rparr>))))"

definition clear_cart :: "app \<Rightarrow> app" where
  "clear_cart st = st\<lparr>cart_tree := []\<rparr>"

section \<open>Orders\<close>

text \<open>
  The query of \<open>load_pending_orders\<close>: Orders joined with Accounts, pending ones only,
  newest first.
\<close>

definition select_pending_orders :: "database \<Rightarrow> pending_row list" where
  "select_pending_orders d =
     rev (sort_key row_date
       (concat (map (\<lambda>r. map (\<lambda>a. \<lparr>row_order_id = OrderID r, row_customer = CustomerName a,
                                     row_date = OrderDate r, row_total = TotalAmount r,
                                     row_status = Status r\<rparr>)
                              (filter (\<lambda>a. CustomerID a = o_CustomerID r) (Accounts d)))
                    (filter (\<lambda>r. Status r = Pending) (Orders d)))))"

definition load_pending_orders :: "app \<Rightarrow> app" where
  "load_pending_orders st = fetch (st\<lparr>pending_orders_tree := select_pending_orders (db st)\<rparr>)"

text \<open>The range of a \<open>DECIMAL(10,2)\<close> column, in cents.\<close>

definition in_DECIMAL_10_2 :: "int \<Rightarrow> bool" where
  "in_DECIMAL_10_2 v \<longleftrightarrow> - 9999999999 \<le> v \<and> v \<le> 9999999999"

text \<open>
  \<open>INSERT INTO Orders\<close>: the total must fit its column; the customer and the staff
  member must exist.
\<close>

definition insert_into_Orders :: "order_row \<Rightarrow> database \<Rightarrow> py_exception + database" where
  "insert_into_Orders row d =
     (if \<not> in_DECIMAL_10_2 (TotalAmount row) then Inl Out_of_range_value
      else if o_CustomerID row \<in> CustomerID ` set (Accounts d)
              \<and> o_StaffID row \<in> StaffID ` set (Staff d)
      then Inr (d\<lparr>Orders := Orders d @ [row]\<rparr>)
      else Inl Foreign_key_constraint_fails)"

text \<open>\<open>INSERT INTO OrderItems\<close>: the order and the book must exist.\<close>

definition insert_into_OrderItems :: "order_item_row \<Rightarrow> database \<Rightarrow> py_exception + database" where
  "insert_into_OrderItems row d =
     (if oi_OrderID row \<in> OrderID ` set (Orders d) \<and> oi_BookID row \<in> BookID ` set (Books d)
      then Inr (d\<lparr>OrderItems := OrderItems d @ [row]\<rparr>)
      else Inl Foreign_key_constraint_fails)"

text \<open>The OrderItems row that \<open>place_order\<close> writes for a line of the cart.\<close>

definition item_of :: "nat \<Rightarrow> cart_line \<Rightarrow> order_item_row" where
  "item_of order_id item =
     \<lparr>oi_OrderID = order_id, oi_BookID = cart_book_id item,
      oi_Quantity = cart_quantity item, oi_Price = cart_price item\<rparr>"

text \<open>The loop of \<open>place_order\<close> over the cart.\<close>

fun order_lines ::
  "nat \<Rightarrow> order_status \<Rightarrow> cart_line list \<Rightarrow> database \<Rightarrow> py_exception + database"
where
  "order_lines order_id status [] d = Inr d"
| "order_lines order_id status (item # items) d =
     and_then
       (and_then
          (insert_into_OrderItems (item_of order_id item) d)
          (\<lambda>d1. if status = Completed
                 then update_Books_Quantity (cart_quantity item) (cart_book_id item) d1
                 else Inr d1))
       (order_lines order_id status items)"

text \<open>
  \<open>BookstoreApp.place_order\<close>: the selection of the customer combo box, the status of the
  button pressed, and the clock. \<open>start_transaction\<close> is the first call inside \<open>try\<close>; it
  raises when a transaction is in progress, and \<open>except\<close> rolls back, which ends that
  transaction. The order id is taken from the counter, which keeps its new value when
  the transaction is rolled back. After the commit the pending orders and the history
  are read again.
\<close>

definition place_order :: "nat option \<Rightarrow> order_status \<Rightarrow> nat \<Rightarrow> app \<Rightarrow> message list \<times> app" where
  "place_order customer_selection status now st =
     (case customer_selection of
        None \<Rightarrow> ([Please_select_a_customer], st)
      | Some customer_id \<Rightarrow>
          if cart_tree st = [] then ([Cart_is_empty], st)
          else if in_transaction st
          then ([Failed_to_place_order Transaction_already_in_progress], rollback st)
          else
            let total_amount = sum_list (map cart_subtotal (cart_tree st));
                order_id = next_OrderID (db st);
                d0 = (db st)\<lparr>next_OrderID := Suc order_id\<rparr>
            in case and_then
                      (insert_into_Orders
                         \<lparr>OrderID = order_id, o_CustomerID = customer_id,
                          o_StaffID = session_id (current_staff st), OrderDate = now,
                          TotalAmount = total_amount, Status = status\<rparr> d0)
                      (order_lines order_id status (cart_tree st)) of
                 Inl e \<Rightarrow> ([Failed_to_place_order e], rollback (st\<lparr>db := d0\<rparr>))
               | Inr d \<Rightarrow>
                   ([Order_placed_successfully order_id status],
                    load_pending_orders (clear_cart (commit (st\<lparr>db := d\<rparr>)))))"

text \<open>\<open>SELECT BookID, Quantity FROM OrderItems WHERE OrderID=%s\<close>\<close>

definition select_order_items :: "nat \<Rightarrow> database \<Rightarrow> (nat \<times> int) list" where
  "select_order_items order_id d =
     map (\<lambda>i. (oi_BookID i, oi_Quantity i)) (filter (\<lambda>i. oi_OrderID i = order_id) (OrderItems d))"

text \<open>The loop of \<open>update_order_status\<close> over the lines of the order.\<close>

fun decrement_items :: "(nat \<times> int) list \<Rightarrow> database \<Rightarrow> py_exception + database" where
  "decrement_items [] d = Inr d"
| "decrement_items ((book_id, quantity) # items) d =
     and_then (update_Books_Quantity quantity book_id d) (decrement_items items)"

text \<open>\<open>UPDATE Orders SET Status=%s WHERE OrderID=%s\<close>\<close>

definition update_Orders_Status :: "order_status \<Rightarrow> nat \<Rightarrow> database \<Rightarrow> database" where
  "update_Orders_Status new_status order_id d =
     d\<lparr>Orders := map (\<lambda>r. if OrderID r = order_id then r\<lparr>Status := new_status\<rparr> else r)
                     (Orders d)\<rparr>"

text \<open>
  \<open>BookstoreApp.update_order_status\<close>: the selected row of the pending-orders tree, by
  position (a position that names no row is no selection), and the status of the button
  pressed. The status that is tested is the one shown in the row. \<open>start_transaction\<close>
  is the first call inside \<open>try\<close>, as in \<open>place_order\<close>.
\<close>

definition update_order_status :: "nat option \<Rightarrow> order_status \<Rightarrow> app \<Rightarrow> message list \<times> app" where
  "update_order_status selected new_status st =
     (case selected of
        None \<Rightarrow> ([Please_select_an_order], st)
      | Some i \<Rightarrow>
          if length (pending_orders_tree st) \<le> i then ([Please_select_an_order], st)
          else
            let order_id = row_order_id (pending_orders_tree st ! i);
                current_status = row_status (pending_orders_tree st ! i)
            in if current_status \<noteq> Pending then ([Only_pending_orders_can_be_modified], st)
               else if in_transaction st
               then ([Failed_to_update_order Transaction_already_in_progress], rollback st)
               else (case (if new_status = Completed
                           then decrement_items (select_order_items order_id (db st)) (db st)
                           else Inr (db st)) of
                       Inl e \<Rightarrow> ([Failed_to_update_order e], rollback st)
                     | Inr d \<Rightarrow>
                         ([Order_updated_to order_id new_status],
                          load_pending_orders
                            (commit (st\<lparr>db := update_Orders_Status new_status order_id d\<rparr>)))))"

section \<open>Concrete states\<close>

text \<open>
  A small store: the default administrator of \<open>initialize_database\<close> and a clerk, two
  books, one customer. Code points spell the names. \<open>desk\<close> is the application after the
  administrator has logged in: \<open>authenticate_staff\<close> read the Staff row with
  \<open>fetch=True\<close>, so a transaction is in progress.
\<close>

definition admin :: staff_row where
  "admin = \<lparr>StaffID = 1, Name = [65, 100, 109, 105, 110], Role = Manager\<rparr>"

definition clerk :: staff_row where
  "clerk = \<lparr>StaffID = 2, Name = [65, 110, 110], Role = Clerk\<rparr>"

definition emma :: book_row where
  "emma = \<lparr>BookID = 7, BookName = [69, 109, 109, 97], Quantity = 5, Price = 1999,
            Update_by = 1\<rparr>"

definition ulysses :: book_row where
  "ulysses = \<lparr>BookID = 3, BookName = [85, 108, 121, 115, 115, 101, 115], Quantity = 2,
               Price = 500, Update_by = 1\<rparr>"

definition shop :: database where
  "shop =
     \<lparr>Staff = [admin, clerk],
      Books = [emma, ulysses],
      Accounts = [\<lparr>CustomerID = 1, CustomerName = [66, 111, 98]\<rparr>],
      Orders = [],
      OrderItems = [],
      BookLog = [],
      next_OrderID = 1\<rparr>"

definition admin_session :: session where
  "admin_session = \<lparr>session_id = 1, session_name = [65, 100, 109, 105, 110],
                     session_role = Manager\<rparr>"

definition desk :: app where
  "desk = \<lparr>db = shop, in_transaction = True, current_staff = admin_session,
            cart_tree = [], pending_orders_tree = [], selected_staff_id = None\<rparr>"

text \<open>Cart lines as \<open>add_to_cart\<close> writes them at these prices.\<close>

definition three_emmas :: cart_line where
  "three_emmas = \<lparr>cart_book_id = 7, cart_book_name = [69, 109, 109, 97], cart_quantity = 3,
                   cart_price = 1999, cart_subtotal = 5997\<rparr>"

definition ten_emmas :: cart_line where
  "ten_emmas = \<lparr>cart_book_id = 7, cart_book_name = [69, 109, 109, 97], cart_quantity = 10,
                 cart_price = 1999, cart_subtotal = 19990\<rparr>"

definition two_ulysses :: cart_line where
  "two_ulysses = \<lparr>cart_book_id = 3, cart_book_name = [85, 108, 121, 115, 115, 101, 115],
                   cart_quantity = 2, cart_price = 500, cart_subtotal = 1000\<rparr>"

text \<open>
  A third book, at the highest price its column holds, in the store of \<open>gallery\<close>.
\<close>

definition atlas :: book_row where
  "atlas = \<lparr>BookID = 9, BookName = [65, 116, 108, 97, 115], Quantity = 5,
             Price = 9999999999, Update_by = 1\<rparr>"

definition gallery :: app where
  "gallery = desk\<lparr>db := shop\<lparr>Books := [emma, ulysses, atlas]\<rparr>\<rparr>"

text \<open>
  Three copies of the first book put into the cart at the desk, and the application
  after a first press of the Complete button there.
\<close>

definition with_three_emmas :: app where
  "with_three_emmas = snd (add_to_cart (Some 7) [51] desk)"

definition after_first_click :: app where
  "after_first_click = snd (place_order (Some 1) Completed 19 with_three_emmas)"

text \<open>The same with two copies of the third book.\<close>

definition with_two_atlases :: app where
  "with_two_atlases = snd (add_to_cart (Some 9) [50] gallery)"

definition atlas_checkout :: app where
  "atlas_checkout = snd (place_order (Some 1) Completed 19 with_two_atlases)"

text \<open>A cart line for six copies of the third book, put there while the stock was higher.\<close>

definition six_atlases :: cart_line where
  "six_atlases = \<lparr>cart_book_id = 9, cart_book_name = [65, 116, 108, 97, 115],
                   cart_quantity = 6, cart_price = 9999999999, cart_subtotal = 59999999994\<rparr>"

text \<open>
  The three copies saved as a Pending order by the next press, after which the list of
  pending orders has been read again.
\<close>

definition saved_as_pending :: app where
  "saved_as_pending = snd (place_order (Some 1) Pending 20 after_first_click)"

text \<open>
  The session of the second staff member, who logged in as a Manager and whose row has
  been changed to Clerk since: the session keeps the role read at login.
\<close>

definition demoted_session :: session where
  "demoted_session = \<lparr>session_id = 2, session_name = [65, 110, 110], session_role = Manager\<rparr>"

text \<open>
  The application with the three copies in the cart, after the price of that book has
  been raised in the catalogue.
\<close>

definition repriced :: app where
  "repriced = after_first_click\<lparr>db := shop\<lparr>Books := [emma\<lparr>Price := 2500\<rparr>, ulysses]\<rparr>\<rparr>"


section \<open>The specification's words for the two numeric validators\<close>

text \<open>
  "\<open>s\<close> parses to a decimal number", read with the grammar of Python's literals: white
  space around it, a sign, digits with an optional point, an optional exponent. The
  number is given by its sign, its digits and its power of ten.
\<close>

definition decimal_number :: "pystr \<Rightarrow> (bool \<times> nat \<times> int) option" where
  "decimal_number s =
     (let (neg, body) = split_sign (number_strip s)
      in case float_literal body of None \<Rightarrow> None | Some (m, e) \<Rightarrow> Some (neg, m, e))"

definition parses_to_nonnegative_decimal :: "pystr \<Rightarrow> bool" where
  "parses_to_nonnegative_decimal s =
     (case decimal_number s of None \<Rightarrow> False | Some (neg, m, e) \<Rightarrow> m = 0 \<or> \<not> neg)"

text \<open>"\<open>s\<close> parses to an integer", likewise.\<close>

definition integer_number :: "pystr \<Rightarrow> int option" where
  "integer_number s =
     (let (neg, body) = split_sign (number_strip s)
      in case digitpart body of
           None \<Rightarrow> None
         | Some n \<Rightarrow> Some (if neg then - int n else int n))"

definition parses_to_positive_integer :: "pystr \<Rightarrow> bool" where
  "parses_to_positive_integer s =
     (case integer_number s of None \<Rightarrow> False | Some n \<Rightarrow> 0 < n)"

text \<open>
  What the validators accept or refuse beyond these words: the names of positive
  infinity, in any case and with an optional plus sign; a negative number so small that
  the nearest double is \<open>-0.0\<close>; and an integer written with more than 4300 digits.
\<close>

definition names_positive_infinity :: "pystr \<Rightarrow> bool" where
  "names_positive_infinity s =
     (let (neg, body) = split_sign (number_strip s); word = map ascii_lower body
      in (word = [105, 110, 102] \<or> word = [105, 110, 102, 105, 110, 105, 116, 121])
         \<and> (neg = False))"

definition rounds_to_minus_zero :: "pystr \<Rightarrow> bool" where
  "rounds_to_minus_zero s =
     (case decimal_number s of
        None \<Rightarrow> False
      | Some (neg, m, e) \<Rightarrow> neg \<and> e < 0 \<and> m * 2 ^ 1075 \<le> 10 ^ nat (- e))"

definition digit_count :: "pystr \<Rightarrow> nat" where
  "digit_count s = length (filter (\<lambda>c. c \<noteq> 95) (snd (split_sign (number_strip s))))"

section \<open>Staff deletion: the logged-in member\<close>

text \<open>
  Claim C9. Whoever is logged in cannot delete their own Staff row: when the selected
  staff member is the current one, \<open>delete_staff\<close> changes nothing, whatever the role of
  that member and however many Managers there are, and once the dialog is confirmed it
  answers "Cannot delete currently logged in staff".
\<close>

theorem delete_staff_current_refused:
  "selected_staff_id st = Some (session_id (current_staff st)) \<Longrightarrow>
     snd (delete_staff confirmed st) = st
     \<and> (confirmed \<longrightarrow> fst (delete_staff confirmed st) = [Cannot_delete_currently_logged_in_staff])"
  by (simp add: delete_staff_def)

theorem delete_staff_current_refused_witness:
  "selected_staff_id (desk\<lparr>selected_staff_id := Some 1\<rparr>)
     = Some (session_id (current_staff (desk\<lparr>selected_staff_id := Some 1\<rparr>)))
   \<and> delete_staff True (desk\<lparr>selected_staff_id := Some 1\<rparr>)
     = ([Cannot_delete_currently_logged_in_staff], desk\<lparr>selected_staff_id := Some 1\<rparr>)"
  using delete_staff_current_refused [of "desk\<lparr>selected_staff_id := Some 1\<rparr>" True]
  by (simp add: desk_def admin_session_def prod_eq_iff)

section \<open>Validators and surrounding white space\<close>

lemma strip_back_head:
  "t = [] \<or> \<not> P (hd t) \<Longrightarrow>
     rev (dropWhile P (rev t)) = [] \<or> \<not> P (hd (rev (dropWhile P (rev t))))"
proof (induction t rule: rev_induct)
  case Nil
  then show ?case by simp
next
  case (snoc x xs)
  show ?case
  proof (cases "P x")
    case True
    from snoc.prems have "xs = [] \<or> \<not> P (hd xs)"
      by (cases xs) (use True in auto)
    with snoc.IH True show ?thesis by simp
  next
    case False
    with snoc.prems show ?thesis by simp
  qed
qed

lemma dropWhile_head_fix: "u = [] \<or> \<not> P (hd u) \<Longrightarrow> dropWhile P u = u"
  by (cases u) auto

lemma dropWhile_head: "dropWhile P s = [] \<or> \<not> P (hd (dropWhile P s))"
  using hd_dropWhile by blast

lemma py_strip_idem: "py_strip (py_strip s) = py_strip s"
proof -
  let ?t = "dropWhile py_isspace s"
  let ?u = "rev (dropWhile py_isspace (rev ?t))"
  have "?u = [] \<or> \<not> py_isspace (hd ?u)"
    by (rule strip_back_head) (rule dropWhile_head)
  then have "dropWhile py_isspace ?u = ?u"
    by (rule dropWhile_head_fix)
  then show ?thesis
    by (simp add: py_strip_def)
qed

text \<open>
  Claim C10. The three string validators do not see white space around their argument:
  for every string \<open>s\<close>, each of \<open>validate_name\<close>, \<open>validate_phone\<close> and \<open>validate_email\<close>
  gives on \<open>s.strip()\<close> what it gives on \<open>s\<close>.
\<close>

theorem validators_ignore_surrounding_space:
  "validate_name (py_strip s) = validate_name s
   \<and> validate_phone (py_strip s) = validate_phone s
   \<and> validate_email (py_strip s) = validate_email s"
  by (simp add: validate_name_def validate_phone_def validate_email_def py_strip_idem)

theorem validators_ignore_surrounding_space_witness:
  "py_strip [32, 65, 110, 110, 10] = [65, 110, 110]
   \<and> validate_name [65, 110, 110] = validate_name [32, 65, 110, 110, 10]
   \<and> validate_phone [65, 110, 110] = validate_phone [32, 65, 110, 110, 10]
   \<and> validate_email [65, 110, 110] = validate_email [32, 65, 110, 110, 10]"
proof -
  have s: "py_strip [32, 65, 110, 110, 10] = [65, 110, 110]"
    by (simp add: py_strip_def py_isspace_def)
  show ?thesis
    using validators_ignore_surrounding_space [of "[32, 65, 110, 110, 10]"]
    by (simp only: s simp_thms)
qed

section \<open>Transactions: what a run of statements leaves\<close>

lemma and_then_Inr_iff:
  "and_then r f = Inr d' \<longleftrightarrow> (\<exists>d1. r = Inr d1 \<and> f d1 = Inr d')"
  by (cases r) (simp_all add: and_then_def)

lemma and_then_Inr [simp]: "and_then (Inr d) f = f d"
  by (simp add: and_then_def)

lemma and_then_Inl [simp]: "and_then (Inl e) f = Inl e"
  by (simp add: and_then_def)

lemma update_Books_Quantity_frame:
  "update_Books_Quantity q b d = Inr d' \<Longrightarrow>
     Staff d' = Staff d \<and> Accounts d' = Accounts d \<and> Orders d' = Orders d
     \<and> OrderItems d' = OrderItems d \<and> next_OrderID d' = next_OrderID d
     \<and> Books d' = map (\<lambda>r. if BookID r = b then r\<lparr>Quantity := Quantity r - q\<rparr> else r) (Books d)"
  by (auto simp: update_Books_Quantity_def Let_def split: if_splits)

lemma insert_into_OrderItems_frame:
  "insert_into_OrderItems row d = Inr d' \<Longrightarrow>
     Staff d' = Staff d \<and> Accounts d' = Accounts d \<and> Orders d' = Orders d
     \<and> OrderItems d' = OrderItems d @ [row] \<and> next_OrderID d' = next_OrderID d
     \<and> Books d' = Books d \<and> BookLog d' = BookLog d"
  by (auto simp: insert_into_OrderItems_def split: if_splits)

lemma order_lines_frame:
  "order_lines oid status items d = Inr d' \<Longrightarrow>
     Staff d' = Staff d \<and> Accounts d' = Accounts d \<and> Orders d' = Orders d
     \<and> OrderItems d' = OrderItems d @ map (item_of oid) items
     \<and> next_OrderID d' = next_OrderID d"
proof (induction items arbitrary: d)
  case Nil
  then show ?case by simp
next
  case (Cons item items)
  from Cons.prems obtain d1 d2 where
    ins: "insert_into_OrderItems (item_of oid item) d = Inr d1"
    and upd: "(if status = Completed
               then update_Books_Quantity (cart_quantity item) (cart_book_id item) d1
               else Inr d1) = Inr d2"
    and rest: "order_lines oid status items d2 = Inr d'"
    by (auto simp: and_then_Inr_iff)
  from upd have f2: "Staff d2 = Staff d1 \<and> Accounts d2 = Accounts d1 \<and> Orders d2 = Orders d1
     \<and> OrderItems d2 = OrderItems d1 \<and> next_OrderID d2 = next_OrderID d1"
    by (auto split: if_splits dest: update_Books_Quantity_frame)
  from insert_into_OrderItems_frame [OF ins] f2 Cons.IH [OF rest]
  show ?case by simp
qed

lemma order_lines_pending_books:
  "status \<noteq> Completed \<Longrightarrow> order_lines oid status items d = Inr d' \<Longrightarrow>
     Books d' = Books d \<and> BookLog d' = BookLog d"
proof (induction items arbitrary: d)
  case Nil
  then show ?case by simp
next
  case (Cons item items)
  from Cons.prems obtain d1 where
    ins: "insert_into_OrderItems (item_of oid item) d = Inr d1"
    and rest: "order_lines oid status items d1 = Inr d'"
    by (auto simp: and_then_Inr_iff)
  from insert_into_OrderItems_frame [OF ins] Cons.IH [OF Cons.prems(1) rest]
  show ?case by simp
qed

text \<open>What a successful \<open>place_order\<close> writes.\<close>

lemma place_order_success:
  assumes "place_order (Some c) status now st = ([Order_placed_successfully oid status'], st')"
  shows "oid = next_OrderID (db st) \<and> status' = status \<and> \<not> in_transaction st
     \<and> Orders (db st') = Orders (db st) @
          [\<lparr>OrderID = oid, o_CustomerID = c, o_StaffID = session_id (current_staff st),
            OrderDate = now, TotalAmount = sum_list (map cart_subtotal (cart_tree st)),
            Status = status\<rparr>]
     \<and> OrderItems (db st') = OrderItems (db st) @ map (item_of oid) (cart_tree st)
     \<and> cart_tree st' = []"
proof -
  let ?d0 = "(db st)\<lparr>next_OrderID := Suc (next_OrderID (db st))\<rparr>"
  let ?row = "\<lparr>OrderID = next_OrderID (db st), o_CustomerID = c,
               o_StaffID = session_id (current_staff st), OrderDate = now,
               TotalAmount = sum_list (map cart_subtotal (cart_tree st)), Status = status\<rparr>"
  from assms have ne: "cart_tree st \<noteq> []"
    by (auto simp: place_order_def)
  from assms ne have idle: "\<not> in_transaction st"
    by (auto simp: place_order_def split: if_splits)
  from assms ne idle obtain d where
    run: "and_then (insert_into_Orders ?row ?d0)
            (order_lines (next_OrderID (db st)) status (cart_tree st)) = Inr d"
    and res: "oid = next_OrderID (db st)" "status' = status"
      "st' = load_pending_orders (clear_cart (commit (st\<lparr>db := d\<rparr>)))"
    by (auto simp: place_order_def Let_def split: sum.splits)
  from run obtain d1 where
    ins: "insert_into_Orders ?row ?d0 = Inr d1"
    and lines: "order_lines (next_OrderID (db st)) status (cart_tree st) d1 = Inr d"
    by (auto simp: and_then_Inr_iff)
  from ins have d1: "Orders d1 = Orders (db st) @ [?row]" "OrderItems d1 = OrderItems (db st)"
    by (auto simp: insert_into_Orders_def split: if_splits)
  from order_lines_frame [OF lines] d1 res idle
  show ?thesis
    by (simp add: load_pending_orders_def clear_cart_def commit_def fetch_def)
qed

section \<open>Placing an order\<close>

lemma filter_single_map:
  "filter P xs = [x] \<Longrightarrow> (\<And>y. P (f y) = P y) \<Longrightarrow> filter P (map f xs) = [f x]"
proof -
  assume a: "filter P xs = [x]" and b: "\<And>y. P (f y) = P y"
  have "filter P (map f xs) = map f (filter P xs)"
    by (induction xs) (simp_all add: b)
  with a show ?thesis by simp
qed

lemma filter_other_map:
  "(\<And>r. BookID (f r) = BookID r) \<Longrightarrow>
     filter (\<lambda>r. BookID r \<noteq> b) (map (\<lambda>r. if BookID r = b then f r else r) xs)
       = filter (\<lambda>r. BookID r \<noteq> b) xs"
  by (induction xs) auto

lemma py_int_3: "py_int [51] = Inr 3"
  by (simp add: py_int_def number_strip_def number_space_def py_isspace_def split_sign_def
      digitpart_def py_decimal_def decimal_zeros_def Let_def)

lemma with_three_emmas: "with_three_emmas = desk\<lparr>cart_tree := [three_emmas]\<rparr>"
  by (simp add: with_three_emmas_def add_to_cart_def py_int_3 desk_def shop_def emma_def
      ulysses_def three_emmas_def fetch_def)

lemma after_first_click:
  "after_first_click = desk\<lparr>cart_tree := [three_emmas], in_transaction := False\<rparr>"
  by (simp add: after_first_click_def with_three_emmas place_order_def desk_def rollback_def)

text \<open>
  Claim C1, as amended. No transaction is in progress on the connection; the cart has
  one line, for a book whose stock \<open>S\<close> covers the quantity \<open>Q\<close> of the line, with the
  subtotal that \<open>add_to_cart\<close> wrote, the price of the line times \<open>Q\<close>, and that total
  fits \<open>DECIMAL(10,2)\<close>; the customer, the staff member and the staff member of the
  book's Update_by exist, and the book has one row. Then placing the cart as Completed
  succeeds: the book's stock becomes \<open>S - Q\<close> and no other book changes, exactly one
  OrderItems row is added, with quantity \<open>Q\<close> and the price of the cart line, and the
  new Orders row has TotalAmount \<open>Q\<close> times that price.
\<close>

theorem place_order_completed_single_line:
  assumes idle: "\<not> in_transaction st"
    and cart: "cart_tree st = [\<lparr>cart_book_id = b, cart_book_name = n, cart_quantity = Q,
                                cart_price = p, cart_subtotal = p * Q\<rparr>]"
    and fits: "in_DECIMAL_10_2 (p * Q)"
    and book: "filter (\<lambda>r. BookID r = b) (Books (db st)) = [book]"
    and stock: "Quantity book = S" and le: "Q \<le> S"
    and cust: "c \<in> CustomerID ` set (Accounts (db st))"
    and staff: "session_id (current_staff st) \<in> StaffID ` set (Staff (db st))"
    and upd_by: "Update_by book \<in> StaffID ` set (Staff (db st))"
  shows "\<exists>st'. place_order (Some c) Completed now st
            = ([Order_placed_successfully (next_OrderID (db st)) Completed], st')
     \<and> filter (\<lambda>r. BookID r = b) (Books (db st')) = [book\<lparr>Quantity := S - Q\<rparr>]
     \<and> filter (\<lambda>r. BookID r \<noteq> b) (Books (db st'))
         = filter (\<lambda>r. BookID r \<noteq> b) (Books (db st))
     \<and> OrderItems (db st') = OrderItems (db st) @
          [\<lparr>oi_OrderID = next_OrderID (db st), oi_BookID = b,
            oi_Quantity = Q, oi_Price = p\<rparr>]
     \<and> Orders (db st') = Orders (db st) @
          [\<lparr>OrderID = next_OrderID (db st), o_CustomerID = c,
            o_StaffID = session_id (current_staff st), OrderDate = now,
            TotalAmount = Q * p, Status = Completed\<rparr>]"
proof -
  define line where "line = \<lparr>cart_book_id = b, cart_book_name = n, cart_quantity = Q,
                              cart_price = p, cart_subtotal = p * Q\<rparr>"
  let ?oid = "next_OrderID (db st)"
  let ?row = "\<lparr>OrderID = ?oid, o_CustomerID = c,
               o_StaffID = session_id (current_staff st), OrderDate = now,
               TotalAmount = p * Q, Status = Completed\<rparr>"
  let ?books = "map (\<lambda>r. if BookID r = b then r\<lparr>Quantity := Quantity r - Q\<rparr> else r) (Books (db st))"
  define d0 where "d0 = (db st)\<lparr>next_OrderID := Suc ?oid\<rparr>"
  define d1 where "d1 = d0\<lparr>Orders := Orders d0 @ [?row]\<rparr>"
  define d2 where "d2 = d1\<lparr>OrderItems := OrderItems d1 @ [item_of ?oid line]\<rparr>"
  define d3 where "d3 = d2\<lparr>Books := ?books,
                  BookLog := BookLog d2 @ [\<lparr>log_BookID = BookID book, Action = UPDATE,
                                             ActionBy = Update_by book\<rparr>]\<rparr>"
  have cart': "cart_tree st = [line]"
    by (simp add: cart line_def)
  have ins: "insert_into_Orders ?row d0 = Inr d1"
    using cust staff fits by (simp add: insert_into_Orders_def d0_def d1_def)
  have "book \<in> set (filter (\<lambda>r. BookID r = b) (Books (db st)))"
    by (simp add: book)
  then have mem: "book \<in> set (Books (db st))" and bid: "BookID book = b"
    by simp_all
  then have ex: "b \<in> BookID ` set (Books (db st))"
    by force
  have item: "insert_into_OrderItems (item_of ?oid line) d1 = Inr d2"
    using ex by (simp add: insert_into_OrderItems_def item_of_def d0_def d1_def d2_def line_def)
  have upd: "update_Books_Quantity Q b d2 = Inr d3"
    using book stock le upd_by
    by (simp add: update_Books_Quantity_def d0_def d1_def d2_def d3_def)
  have lq: "cart_quantity line = Q" "cart_book_id line = b" "cart_subtotal line = p * Q"
    by (simp_all add: line_def)
  have run: "and_then (insert_into_Orders ?row d0) (order_lines ?oid Completed [line]) = Inr d3"
    by (simp add: ins item lq upd)
  define st' where "st' = load_pending_orders (clear_cart (commit (st\<lparr>db := d3\<rparr>)))"
  have res: "place_order (Some c) Completed now st
               = ([Order_placed_successfully ?oid Completed], st')"
    unfolding place_order_def st'_def using run idle by (simp add: cart' lq Let_def d0_def)
  have db': "db st' = d3"
    by (simp add: st'_def load_pending_orders_def clear_cart_def commit_def fetch_def)
  have b1: "filter (\<lambda>r. BookID r = b) ?books = [book\<lparr>Quantity := S - Q\<rparr>]"
    using filter_single_map [OF book, of "\<lambda>r. if BookID r = b then r\<lparr>Quantity := Quantity r - Q\<rparr> else r"]
      bid stock by simp
  have b2: "filter (\<lambda>r. BookID r \<noteq> b) ?books = filter (\<lambda>r. BookID r \<noteq> b) (Books (db st))"
    by (rule filter_other_map) simp
  have "filter (\<lambda>r. BookID r = b) (Books d3) = [book\<lparr>Quantity := S - Q\<rparr>]"
    using b1 by (simp add: d3_def)
  moreover have "filter (\<lambda>r. BookID r \<noteq> b) (Books d3) = filter (\<lambda>r. BookID r \<noteq> b) (Books (db st))"
    using b2 by (simp add: d3_def)
  moreover have "OrderItems d3 = OrderItems (db st) @
          [\<lparr>oi_OrderID = ?oid, oi_BookID = b, oi_Quantity = Q, oi_Price = p\<rparr>]"
    by (simp add: d3_def d2_def d1_def d0_def item_of_def line_def)
  moreover have "Orders d3 = Orders (db st) @
          [\<lparr>OrderID = ?oid, o_CustomerID = c,
            o_StaffID = session_id (current_staff st), OrderDate = now,
            TotalAmount = Q * p, Status = Completed\<rparr>]"
    by (simp add: d3_def d2_def d1_def d0_def mult.commute)
  ultimately show ?thesis
    using res db' by blast
qed

text \<open>
  The scenario of the specification, as the program runs it: stock 5, three copies put
  into the cart at the desk, a first press of the button (which ends the transaction that
  the reads had left open), then the press that places the order.
\<close>

theorem place_order_completed_single_line_witness:
  "\<not> in_transaction after_first_click
   \<and> cart_tree after_first_click
       = [\<lparr>cart_book_id = 7, cart_book_name = [69, 109, 109, 97], cart_quantity = 3,
           cart_price = 1999, cart_subtotal = 1999 * 3\<rparr>]
   \<and> (\<exists>st'. place_order (Some 1) Completed 20 after_first_click
            = ([Order_placed_successfully 1 Completed], st')
     \<and> filter (\<lambda>r. BookID r = 7) (Books (db st')) = [emma\<lparr>Quantity := 2\<rparr>]
     \<and> filter (\<lambda>r. BookID r \<noteq> 7) (Books (db st')) = [ulysses]
     \<and> OrderItems (db st') = [\<lparr>oi_OrderID = 1, oi_BookID = 7, oi_Quantity = 3, oi_Price = 1999\<rparr>]
     \<and> Orders (db st') = [\<lparr>OrderID = 1, o_CustomerID = 1, o_StaffID = 1, OrderDate = 20,
                            TotalAmount = 5997, Status = Completed\<rparr>])"
  using place_order_completed_single_line
          [of after_first_click 7 "[69, 109, 109, 97]" 3 1999 emma 5 1 20]
  by (simp add: after_first_click desk_def shop_def emma_def ulysses_def three_emmas_def
        admin_def clerk_def admin_session_def in_DECIMAL_10_2_def)
lemma py_int_2: "py_int [50] = Inr 2"
  by (simp add: py_int_def number_strip_def number_space_def py_isspace_def split_sign_def
      digitpart_def py_decimal_def decimal_zeros_def Let_def)

lemma atlas_checkout:
  "atlas_checkout =
     gallery\<lparr>cart_tree := [\<lparr>cart_book_id = 9, cart_book_name = [65, 116, 108, 97, 115],
                              cart_quantity = 2, cart_price = 9999999999,
                              cart_subtotal = 19999999998\<rparr>],
             in_transaction := False\<rparr>"
  by (simp add: atlas_checkout_def with_two_atlases_def add_to_cart_def py_int_2 gallery_def
      desk_def shop_def emma_def ulysses_def atlas_def fetch_def place_order_def rollback_def)

text \<open>
  Claim C1 as it is written does not hold: the book has stock 5 and one row, the one line
  of the cart asks for 2 of it, no transaction is in progress, customer and staff member
  exist; but the total, 2 times 99999999.99, is more than the TotalAmount column holds.
  The INSERT is refused, the order is not placed and the stock stays 5.
\<close>

theorem place_order_total_out_of_range:
  "cart_tree atlas_checkout
     = [\<lparr>cart_book_id = 9, cart_book_name = [65, 116, 108, 97, 115], cart_quantity = 2,
         cart_price = 9999999999, cart_subtotal = 9999999999 * 2\<rparr>]
   \<and> filter (\<lambda>r. BookID r = 9) (Books (db atlas_checkout)) = [atlas]
   \<and> Quantity atlas = 5
   \<and> place_order (Some 1) Completed 20 atlas_checkout
       = ([Failed_to_place_order Out_of_range_value],
          atlas_checkout\<lparr>db := (db atlas_checkout)\<lparr>next_OrderID := 2\<rparr>\<rparr>)
   \<and> Orders (db (snd (place_order (Some 1) Completed 20 atlas_checkout))) = []
   \<and> filter (\<lambda>r. BookID r = 9)
        (Books (db (snd (place_order (Some 1) Completed 20 atlas_checkout)))) = [atlas]"
  by (simp add: atlas_checkout place_order_def insert_into_Orders_def in_DECIMAL_10_2_def
      gallery_def desk_def shop_def emma_def ulysses_def atlas_def rollback_def)

lemma image_BookID_map:
  "(\<And>r. BookID (f r) = BookID r) \<Longrightarrow> BookID ` set (map f xs) = BookID ` set xs"
  by (simp add: image_image)

lemma update_Books_Quantity_cases:
  "update_Books_Quantity q b d = Inr d' \<Longrightarrow>
     \<not> list_ex (\<lambda>r. Quantity r - q < 0) (filter (\<lambda>r. BookID r = b) (Books d))"
  by (auto simp: update_Books_Quantity_def Let_def split: if_splits)

lemma order_lines_short_stock:
  assumes "\<forall>l \<in> set items. 0 \<le> cart_quantity l"
    and "line \<in> set items"
    and "book \<in> set (Books d)" and "BookID book = cart_book_id line"
    and "Quantity book < cart_quantity line"
  shows "order_lines oid Completed items d \<noteq> Inr d'"
  using assms
proof (induction items arbitrary: d book)
  case Nil
  then show ?case by simp
next
  case (Cons item items)
  show ?case
  proof
    assume ok: "order_lines oid Completed (item # items) d = Inr d'"
    then obtain d1 d2 where
      ins: "insert_into_OrderItems (item_of oid item) d = Inr d1"
      and upd: "update_Books_Quantity (cart_quantity item) (cart_book_id item) d1 = Inr d2"
      and rest: "order_lines oid Completed items d2 = Inr d'"
      by (auto simp: and_then_Inr_iff)
    have b1: "Books d1 = Books d"
      using insert_into_OrderItems_frame [OF ins] by simp
    let ?f = "\<lambda>r. if BookID r = cart_book_id item
                   then r\<lparr>Quantity := Quantity r - cart_quantity item\<rparr> else r"
    have b2: "Books d2 = map ?f (Books d)"
      using update_Books_Quantity_frame [OF upd] b1 by simp
    have q0: "0 \<le> cart_quantity item"
      using Cons.prems(1) by simp
    show False
    proof (cases "item = line")
      case True
      have "list_ex (\<lambda>r. Quantity r - cart_quantity item < 0)
              (filter (\<lambda>r. BookID r = cart_book_id item) (Books d1))"
        unfolding list_ex_iff using Cons.prems(3,4,5) True b1
        by (intro bexI [of _ book]) simp_all
      with update_Books_Quantity_cases [OF upd] show False by simp
    next
      case False
      with Cons.prems(2) have mem: "line \<in> set items" by simp
      have "?f book \<in> set (Books d2)"
        using Cons.prems(3) b2 by simp
      moreover have "BookID (?f book) = cart_book_id line"
        using Cons.prems(4) by simp
      moreover have "Quantity (?f book) < cart_quantity line"
        using Cons.prems(5) q0 by simp
      moreover have "\<forall>l \<in> set items. 0 \<le> cart_quantity l"
        using Cons.prems(1) by simp
      ultimately have "order_lines oid Completed items d2 \<noteq> Inr d'"
        using Cons.IH mem by blast
      with rest show False by simp
    qed
  qed
qed

lemma order_lines_error_is_check:
  assumes "oid \<in> OrderID ` set (Orders d)"
    and "\<forall>l \<in> set items. cart_book_id l \<in> BookID ` set (Books d)"
    and "\<forall>r \<in> set (Books d). Update_by r \<in> StaffID ` set (Staff d)"
    and "order_lines oid Completed items d = Inl e"
  shows "e = Check_constraint_violated"
  using assms
proof (induction items arbitrary: d)
  case Nil
  then show ?case by simp
next
  case (Cons item items)
  let ?d1 = "d\<lparr>OrderItems := OrderItems d @ [item_of oid item]\<rparr>"
  have ins: "insert_into_OrderItems (item_of oid item) d = Inr ?d1"
    using Cons.prems(1,2) by (simp add: insert_into_OrderItems_def item_of_def)
  show ?case
  proof (cases "update_Books_Quantity (cart_quantity item) (cart_book_id item) ?d1")
    case (Inl e')
    with Cons.prems(4) ins have "e' = e" by simp
    moreover from Inl Cons.prems(3) have "e' = Check_constraint_violated"
      by (auto simp: update_Books_Quantity_def Let_def list_ex_iff split: if_splits)
    ultimately show ?thesis by simp
  next
    case (Inr d2)
    with Cons.prems(4) ins have rest: "order_lines oid Completed items d2 = Inl e" by simp
    from update_Books_Quantity_frame [OF Inr]
    have f: "Staff d2 = Staff d" "Orders d2 = Orders d"
      "Books d2 = map (\<lambda>r. if BookID r = cart_book_id item
                         then r\<lparr>Quantity := Quantity r - cart_quantity item\<rparr> else r) (Books d)"
      by simp_all
    have ids: "BookID ` set (Books d2) = BookID ` set (Books d)"
      unfolding f(3) by (rule image_BookID_map) simp
    have "oid \<in> OrderID ` set (Orders d2)"
      using Cons.prems(1) f by simp
    moreover have "\<forall>l \<in> set items. cart_book_id l \<in> BookID ` set (Books d2)"
      using Cons.prems(2) ids by simp
    moreover have "\<forall>r \<in> set (Books d2). Update_by r \<in> StaffID ` set (Staff d2)"
      using Cons.prems(3) f by auto
    ultimately show ?thesis
      using Cons.IH rest by blast
  qed
qed

lemma place_order_tables_kept:
  assumes "place_order (Some c) status now st = ([Failed_to_place_order e], st')"
  shows "Staff (db st') = Staff (db st) \<and> Books (db st') = Books (db st)
     \<and> Accounts (db st') = Accounts (db st) \<and> Orders (db st') = Orders (db st)
     \<and> OrderItems (db st') = OrderItems (db st) \<and> BookLog (db st') = BookLog (db st)
     \<and> cart_tree st' = cart_tree st"
  using assms
  by (auto simp: place_order_def Let_def rollback_def split: if_splits sum.splits)

text \<open>
  Claim C2, as amended. A cart (quantities not negative, as \<open>add_to_cart\<close> leaves them)
  with a line that asks for more than the stock of its book, placed as Completed: the
  handler answers "Failed to place order" with the exception it caught, and the
  transaction is rolled back, so that every table is as before and the cart is kept;
  this holds for a cart of several lines too. The program has no error of its own for
  short stock and no test of its own before the writes: when no transaction was in
  progress, the total fits its column and no foreign key is broken, the exception is
  the violated \<open>CHECK (Quantity >= 0)\<close> of the UPDATE inside the transaction.
\<close>

theorem place_order_short_stock_rolls_back:
  assumes line: "line \<in> set (cart_tree st)"
    and pos: "\<forall>l \<in> set (cart_tree st). 0 \<le> cart_quantity l"
    and book: "book \<in> set (Books (db st))" "BookID book = cart_book_id line"
    and stock: "Quantity book = S" and qty: "cart_quantity line = Q" and short: "S < Q"
  shows "\<exists>e st'. place_order (Some c) Completed now st = ([Failed_to_place_order e], st')
         \<and> Staff (db st') = Staff (db st) \<and> Books (db st') = Books (db st)
         \<and> Accounts (db st') = Accounts (db st) \<and> Orders (db st') = Orders (db st)
         \<and> OrderItems (db st') = OrderItems (db st) \<and> BookLog (db st') = BookLog (db st)
         \<and> cart_tree st' = cart_tree st
         \<and> (\<not> in_transaction st
              \<and> in_DECIMAL_10_2 (sum_list (map cart_subtotal (cart_tree st)))
              \<and> c \<in> CustomerID ` set (Accounts (db st))
              \<and> session_id (current_staff st) \<in> StaffID ` set (Staff (db st))
              \<and> (\<forall>l \<in> set (cart_tree st). cart_book_id l \<in> BookID ` set (Books (db st)))
              \<and> (\<forall>r \<in> set (Books (db st)). Update_by r \<in> StaffID ` set (Staff (db st)))
             \<longrightarrow> e = Check_constraint_violated)"
proof -
  let ?oid = "next_OrderID (db st)"
  define d0 where "d0 = (db st)\<lparr>next_OrderID := Suc ?oid\<rparr>"
  define row where "row = \<lparr>OrderID = ?oid, o_CustomerID = c,
               o_StaffID = session_id (current_staff st), OrderDate = now,
               TotalAmount = sum_list (map cart_subtotal (cart_tree st)), Status = Completed\<rparr>"
  define run where "run = and_then (insert_into_Orders row d0) (order_lines ?oid Completed (cart_tree st))"
  have ne: "cart_tree st \<noteq> []"
    using line by auto
  have fails: "run \<noteq> Inr d'" for d'
  proof
    assume "run = Inr d'"
    then obtain d1 where ins: "insert_into_Orders row d0 = Inr d1"
      and lines: "order_lines ?oid Completed (cart_tree st) d1 = Inr d'"
      by (auto simp: run_def and_then_Inr_iff)
    from ins have "Books d1 = Books (db st)"
      by (auto simp: insert_into_Orders_def d0_def split: if_splits)
    with book have "book \<in> set (Books d1)" by simp
    from order_lines_short_stock [OF pos line this book(2)] stock qty short lines
    show False by simp
  qed
  then obtain e where e: "run = Inl e"
    by (cases run) auto
  define e' where "e' = (if in_transaction st then Transaction_already_in_progress else e)"
  define st' where "st' = (if in_transaction st then rollback st else rollback (st\<lparr>db := d0\<rparr>))"
  have res: "place_order (Some c) Completed now st = ([Failed_to_place_order e'], st')"
    unfolding place_order_def using ne e
    by (simp add: Let_def run_def row_def d0_def e'_def st'_def)
  have kind: "e' = Check_constraint_violated"
    if idle: "\<not> in_transaction st"
      and fits: "in_DECIMAL_10_2 (sum_list (map cart_subtotal (cart_tree st)))"
      and fk: "c \<in> CustomerID ` set (Accounts (db st))"
       "session_id (current_staff st) \<in> StaffID ` set (Staff (db st))"
       "\<forall>l \<in> set (cart_tree st). cart_book_id l \<in> BookID ` set (Books (db st))"
       "\<forall>r \<in> set (Books (db st)). Update_by r \<in> StaffID ` set (Staff (db st))"
  proof -
    define d1 where "d1 = d0\<lparr>Orders := Orders d0 @ [row]\<rparr>"
    have ins: "insert_into_Orders row d0 = Inr d1"
      using fk(1,2) fits by (simp add: insert_into_Orders_def d0_def d1_def row_def)
    with e have lines: "order_lines ?oid Completed (cart_tree st) d1 = Inl e"
      by (simp add: run_def)
    have "?oid \<in> OrderID ` set (Orders d1)"
      by (simp add: d1_def row_def)
    moreover have "\<forall>l \<in> set (cart_tree st). cart_book_id l \<in> BookID ` set (Books d1)"
      using fk(3) by (simp add: d1_def d0_def)
    moreover have "\<forall>r \<in> set (Books d1). Update_by r \<in> StaffID ` set (Staff d1)"
      using fk(4) by (simp add: d1_def d0_def)
    ultimately have "e = Check_constraint_violated"
      using order_lines_error_is_check lines by blast
    with idle show ?thesis by (simp add: e'_def)
  qed
  from place_order_tables_kept [OF res] res kind show ?thesis
    by blast
qed

text \<open>
  A cart of two lines, the second asking for ten copies of a book with stock 5, placed
  after the first press has ended the open transaction: the first line's OrderItems row
  and decrement are undone with the rest.
\<close>

theorem place_order_short_stock_rolls_back_witness:
  "\<exists>st'. place_order (Some 1) Completed 20
            (desk\<lparr>cart_tree := [two_ulysses, ten_emmas], in_transaction := False\<rparr>)
          = ([Failed_to_place_order Check_constraint_violated], st')
        \<and> Books (db st') = [emma, ulysses] \<and> Orders (db st') = []
        \<and> OrderItems (db st') = [] \<and> BookLog (db st') = []
        \<and> cart_tree st' = [two_ulysses, ten_emmas]"
  using place_order_short_stock_rolls_back
          [of ten_emmas "desk\<lparr>cart_tree := [two_ulysses, ten_emmas], in_transaction := False\<rparr>"
              emma 5 10 1 20]
  by (auto simp: desk_def shop_def emma_def ulysses_def ten_emmas_def two_ulysses_def
        admin_def clerk_def admin_session_def in_DECIMAL_10_2_def)

text \<open>
  Claim C2 as it is written does not hold: the one line of the cart asks for six copies
  of a book with stock 5, no transaction is in progress, and the order fails, but not on
  the stock: the total, 6 times 99999999.99, does not fit the TotalAmount column, the
  INSERT INTO Orders is refused and the stock is never looked at.
\<close>

theorem place_order_short_stock_other_error:
  "cart_quantity six_atlases = 6
   \<and> filter (\<lambda>r. BookID r = cart_book_id six_atlases) (Books (db gallery)) = [atlas]
   \<and> Quantity atlas = 5
   \<and> place_order (Some 1) Completed 20
        (gallery\<lparr>cart_tree := [six_atlases], in_transaction := False\<rparr>)
       = ([Failed_to_place_order Out_of_range_value],
          gallery\<lparr>cart_tree := [six_atlases], in_transaction := False,
                  db := (db gallery)\<lparr>next_OrderID := 2\<rparr>\<rparr>)
   \<and> fst (place_order (Some 1) Completed 20
             (gallery\<lparr>cart_tree := [six_atlases], in_transaction := False\<rparr>))
       \<noteq> [Failed_to_place_order Check_constraint_violated]"
  by (simp add: six_atlases_def place_order_def insert_into_Orders_def in_DECIMAL_10_2_def
      gallery_def desk_def shop_def emma_def ulysses_def atlas_def rollback_def)

section \<open>Cancelling a pending order\<close>

lemma saved_as_pending:
  "saved_as_pending =
     desk\<lparr>db := shop\<lparr>Orders := [\<lparr>OrderID = 1, o_CustomerID = 1, o_StaffID = 1,
                                  OrderDate = 20, TotalAmount = 5997, Status = Pending\<rparr>],
                     OrderItems := [\<lparr>oi_OrderID = 1, oi_BookID = 7, oi_Quantity = 3,
                                      oi_Price = 1999\<rparr>],
                     next_OrderID := 2\<rparr>,
          pending_orders_tree := [\<lparr>row_order_id = 1, row_customer = [66, 111, 98],
                                   row_date = 20, row_total = 5997, row_status = Pending\<rparr>]\<rparr>"
  by (simp add: saved_as_pending_def after_first_click place_order_def desk_def shop_def
        emma_def ulysses_def three_emmas_def admin_def clerk_def admin_session_def
        insert_into_Orders_def in_DECIMAL_10_2_def insert_into_OrderItems_def item_of_def
        load_pending_orders_def clear_cart_def select_pending_orders_def commit_def fetch_def)

text \<open>
  What the handler does for a Pending row when no transaction is in progress: the order
  becomes Cancelled and no other table is written.
\<close>

lemma cancel_pending_keeps_stock:
  assumes "i < length (pending_orders_tree st)"
    and "row_status (pending_orders_tree st ! i) = Pending"
    and "row_order_id (pending_orders_tree st ! i) = order_id"
    and "\<not> in_transaction st"
  shows "\<exists>st'. update_order_status (Some i) Cancelled st
                 = ([Order_updated_to order_id Cancelled], st')
     \<and> Books (db st') = Books (db st)
     \<and> Orders (db st')
         = map (\<lambda>r. if OrderID r = order_id then r\<lparr>Status := Cancelled\<rparr> else r) (Orders (db st))
     \<and> OrderItems (db st') = OrderItems (db st)"
  using assms
  by (simp add: update_order_status_def Let_def update_Orders_Status_def load_pending_orders_def
        commit_def fetch_def)

text \<open>
  Claim C4. Cancelling is meant to set the status and nothing else, and the stock is
  indeed never written. But the handler calls \<open>start_transaction\<close> while the SELECT that
  filled the list of pending orders has left a transaction open: on the order just
  saved, the first press of Cancel answers "Failed to update order: Transaction already
  in progress" and the order stays Pending. The rollback of that failure ends the
  transaction, and a second press cancels the order.
\<close>

theorem cancel_first_press_fails:
  "row_status (pending_orders_tree saved_as_pending ! 0) = Pending
   \<and> update_order_status (Some 0) Cancelled saved_as_pending
       = ([Failed_to_update_order Transaction_already_in_progress], rollback saved_as_pending)
   \<and> map Status (Orders (db (rollback saved_as_pending))) = [Pending]
   \<and> Books (db (rollback saved_as_pending)) = Books (db saved_as_pending)
   \<and> fst (update_order_status (Some 0) Cancelled (rollback saved_as_pending))
       = [Order_updated_to 1 Cancelled]
   \<and> map Status (Orders (db (snd (update_order_status (Some 0) Cancelled
                                     (rollback saved_as_pending))))) = [Cancelled]
   \<and> Books (db (snd (update_order_status (Some 0) Cancelled (rollback saved_as_pending))))
       = Books (db saved_as_pending)"
  by (simp add: saved_as_pending update_order_status_def desk_def shop_def rollback_def
        update_Orders_Status_def load_pending_orders_def commit_def fetch_def)

section \<open>Staff deletion: the last Manager\<close>

lemma filter_id_distinct:
  "distinct (map f xs) \<Longrightarrow> x \<in> set xs \<Longrightarrow> filter (\<lambda>r. f r = f x) xs = [x]"
proof (induction xs)
  case Nil
  then show ?case by simp
next
  case (Cons a xs)
  show ?case
  proof (cases "a = x")
    case True
    from Cons.prems(1) True have "f x \<notin> f ` set xs" by simp
    then have "\<forall>r \<in> set xs. f r \<noteq> f x" by (auto simp: image_iff)
    then have "filter (\<lambda>r. f r = f x) xs = []"
      by (simp add: filter_empty_conv)
    with True show ?thesis by simp
  next
    case False
    with Cons.prems have "x \<in> set xs" "f a \<noteq> f x"
      by (auto simp: image_iff)
    with Cons.IH Cons.prems(1) show ?thesis by simp
  qed
qed

lemma length_filter_other_id:
  "distinct (map f xs) \<Longrightarrow> length xs \<le> Suc (length (filter (\<lambda>r. f r \<noteq> k) xs))"
proof (induction xs)
  case Nil
  then show ?case by simp
next
  case (Cons a xs)
  show ?case
  proof (cases "f a = k")
    case True
    from Cons.prems True have "k \<notin> f ` set xs" by simp
    then have "\<forall>r \<in> set xs. f r \<noteq> k" by force
    then have "filter (\<lambda>r. f r \<noteq> k) xs = xs"
      by (rule filter_True)
    with True show ?thesis by simp
  next
    case False
    with Cons show ?thesis by simp
  qed
qed

lemma managers_after_delete:
  assumes pk: "distinct (map StaffID (Staff d))"
    and some: "1 \<le> count_managers d"
    and ok: "(case map Role (filter (\<lambda>r. StaffID r = sid) (Staff d)) of
                [] \<Rightarrow> False | r # _ \<Rightarrow> r = Manager) \<longrightarrow> 1 < count_managers d"
  shows "1 \<le> length (filter (\<lambda>r. Role r = Manager) (filter (\<lambda>r. StaffID r \<noteq> sid) (Staff d)))"
proof -
  let ?ms = "filter (\<lambda>r. Role r = Manager) (Staff d)"
  have swap: "filter (\<lambda>r. Role r = Manager) (filter (\<lambda>r. StaffID r \<noteq> sid) (Staff d))
          = filter (\<lambda>r. StaffID r \<noteq> sid) ?ms"
    by (simp add: conj_commute)
  have pkm: "distinct (map StaffID ?ms)"
    using pk by (simp add: distinct_map_filter)
  show ?thesis
  proof (cases "\<exists>m \<in> set ?ms. StaffID m = sid")
    case True
    then obtain m where m: "m \<in> set (Staff d)" "Role m = Manager" "StaffID m = sid"
      by auto
    from filter_id_distinct [OF pk m(1)] m(3)
    have "filter (\<lambda>r. StaffID r = sid) (Staff d) = [m]" by simp
    with ok m(2) have "1 < length ?ms"
      by (simp add: count_managers_def)
    with length_filter_other_id [OF pkm, of sid] show ?thesis
      unfolding swap by simp
  next
    case False
    then have "\<forall>r \<in> set ?ms. StaffID r \<noteq> sid" by blast
    then have "filter (\<lambda>r. StaffID r \<noteq> sid) ?ms = ?ms"
      by (rule filter_True)
    with some show ?thesis
      unfolding swap by (simp add: count_managers_def)
  qed
qed

lemma delete_staff_cases:
  "db (snd (delete_staff confirmed st)) = db st
   \<or> (\<exists>sid. db (snd (delete_staff confirmed st))
                = (db st)\<lparr>Staff := filter (\<lambda>r. StaffID r \<noteq> sid) (Staff (db st))\<rparr>
            \<and> ((case map Role (filter (\<lambda>r. StaffID r = sid) (Staff (db st))) of
                   [] \<Rightarrow> False | r # _ \<Rightarrow> r = Manager) \<longrightarrow> 1 < count_managers (db st)))"
proof (cases "selected_staff_id st")
  case None
  then show ?thesis by (simp add: delete_staff_def)
next
  case (Some sid)
  show ?thesis
  proof (cases "confirmed \<and> session_id (current_staff st) \<noteq> sid
                \<and> \<not> ((case map Role (filter (\<lambda>r. StaffID r = sid) (Staff (db st))) of
                          [] \<Rightarrow> False | r # _ \<Rightarrow> r = Manager) \<and> count_managers (db st) \<le> 1)
                \<and> \<not> (sid \<in> StaffID ` set (Staff (db st)) \<and> staff_is_referenced (db st) sid)")
    case True
    then have "db (snd (delete_staff confirmed st))
                = (db st)\<lparr>Staff := filter (\<lambda>r. StaffID r \<noteq> sid) (Staff (db st))\<rparr>"
      using Some by (auto simp: delete_staff_def delete_from_Staff_def fetch_def commit_def)
    with True show ?thesis
      by (intro disjI2 exI [of _ sid]) auto
  next
    case False
    then have "db (snd (delete_staff confirmed st)) = db st"
      using Some by (auto simp: delete_staff_def delete_from_Staff_def fetch_def rollback_def)
    then show ?thesis by simp
  qed
qed

text \<open>
  Claim C6, as amended. StaffID is the primary key of Staff. When exactly one Staff row
  has role Manager and that row is selected, a confirmed \<open>delete_staff\<close> leaves the store
  as it is; it answers "Cannot delete the last manager", unless that Manager is the one
  logged in, who is told "Cannot delete currently logged in staff" before the roles are
  looked at. And whatever is selected and answered, a store with a Manager has a Manager
  after \<open>delete_staff\<close>.
\<close>

theorem delete_staff_keeps_a_manager:
  assumes pk: "distinct (map StaffID (Staff (db st)))"
  shows "(filter (\<lambda>r. Role r = Manager) (Staff (db st)) = [m]
            \<and> selected_staff_id st = Some (StaffID m)
          \<longrightarrow> fst (delete_staff True st)
                = (if session_id (current_staff st) = StaffID m
                   then [Cannot_delete_currently_logged_in_staff]
                   else [Cannot_delete_the_last_manager])
              \<and> db (snd (delete_staff True st)) = db st)
       \<and> (1 \<le> count_managers (db st)
          \<longrightarrow> 1 \<le> count_managers (db (snd (delete_staff confirmed st))))"
proof (intro conjI impI)
  assume a: "filter (\<lambda>r. Role r = Manager) (Staff (db st)) = [m]
            \<and> selected_staff_id st = Some (StaffID m)"
  then have ms: "filter (\<lambda>r. Role r = Manager) (Staff (db st)) = [m]"
    and sel: "selected_staff_id st = Some (StaffID m)" by simp_all
  have "m \<in> set (filter (\<lambda>r. Role r = Manager) (Staff (db st)))"
    by (simp add: ms)
  then have m: "m \<in> set (Staff (db st))" "Role m = Manager" by simp_all
  from filter_id_distinct [OF pk m(1)]
  have one: "filter (\<lambda>r. StaffID r = StaffID m) (Staff (db st)) = [m]" .
  show "fst (delete_staff True st)
                = (if session_id (current_staff st) = StaffID m
                   then [Cannot_delete_currently_logged_in_staff]
                   else [Cannot_delete_the_last_manager])"
    by (simp add: delete_staff_def sel one m(2) count_managers_def ms)
  show "db (snd (delete_staff True st)) = db st"
    by (simp add: delete_staff_def sel one m(2) count_managers_def ms fetch_def)
next
  assume some: "1 \<le> count_managers (db st)"
  from delete_staff_cases [of confirmed st]
  show "1 \<le> count_managers (db (snd (delete_staff confirmed st)))"
  proof
    assume "db (snd (delete_staff confirmed st)) = db st"
    with some show ?thesis by simp
  next
    assume "\<exists>sid. db (snd (delete_staff confirmed st))
                = (db st)\<lparr>Staff := filter (\<lambda>r. StaffID r \<noteq> sid) (Staff (db st))\<rparr>
            \<and> ((case map Role (filter (\<lambda>r. StaffID r = sid) (Staff (db st))) of
                   [] \<Rightarrow> False | r # _ \<Rightarrow> r = Manager) \<longrightarrow> 1 < count_managers (db st))"
    then obtain sid where
      res: "db (snd (delete_staff confirmed st))
                = (db st)\<lparr>Staff := filter (\<lambda>r. StaffID r \<noteq> sid) (Staff (db st))\<rparr>"
      and ok: "(case map Role (filter (\<lambda>r. StaffID r = sid) (Staff (db st))) of
                  [] \<Rightarrow> False | r # _ \<Rightarrow> r = Manager) \<longrightarrow> 1 < count_managers (db st)"
      by blast
    from managers_after_delete [OF pk some ok] show ?thesis
      by (simp add: res count_managers_def)
  qed
qed

text \<open>
  The second staff member, still holding a Manager's session, selects the only Manager
  of the store and confirms.
\<close>

theorem delete_staff_keeps_a_manager_witness:
  "distinct (map StaffID (Staff (db (desk\<lparr>current_staff := demoted_session,
                                          selected_staff_id := Some 1\<rparr>))))
   \<and> filter (\<lambda>r. Role r = Manager) (Staff (db desk)) = [admin]
   \<and> fst (delete_staff True (desk\<lparr>current_staff := demoted_session,
                                  selected_staff_id := Some 1\<rparr>))
       = [Cannot_delete_the_last_manager]
   \<and> db (snd (delete_staff True (desk\<lparr>current_staff := demoted_session,
                                      selected_staff_id := Some 1\<rparr>))) = shop
   \<and> 1 \<le> count_managers (db (snd (delete_staff True
             (desk\<lparr>current_staff := demoted_session, selected_staff_id := Some 1\<rparr>))))"
  using delete_staff_keeps_a_manager
          [of "desk\<lparr>current_staff := demoted_session, selected_staff_id := Some 1\<rparr>"
              admin True]
  by (simp add: desk_def shop_def admin_def clerk_def demoted_session_def count_managers_def)

text \<open>
  Claim C6 as it is written does not hold: the store has exactly one Manager, who is
  logged in and selects the own row. Nothing is deleted, but the answer is not the one
  for the last Manager.
\<close>

theorem delete_sole_manager_logged_in:
  "filter (\<lambda>r. Role r = Manager) (Staff (db desk)) = [admin]
   \<and> session_id (current_staff desk) = StaffID admin
   \<and> delete_staff True (desk\<lparr>selected_staff_id := Some (StaffID admin)\<rparr>)
       = ([Cannot_delete_currently_logged_in_staff],
          desk\<lparr>selected_staff_id := Some (StaffID admin)\<rparr>)
   \<and> fst (delete_staff True (desk\<lparr>selected_staff_id := Some (StaffID admin)\<rparr>))
       \<noteq> [Cannot_delete_the_last_manager]"
  by (simp add: delete_staff_def desk_def shop_def admin_def clerk_def admin_session_def)

section \<open>Adding to the cart\<close>

text \<open>
  Claim C7. For a book that is in the catalogue, \<open>add_to_cart\<close> turns the text of the
  quantity box into an integer, refuses one that is not positive ("Quantity must be
  positive") and one that is more than the stock read now ("Only \<open>n\<close> available in stock"),
  and otherwise appends a line with the price read now and that price times the
  quantity. The line is part of the application, not of the store: whatever the store
  has become when a later \<open>place_order\<close> succeeds with this cart, the OrderItems row of
  the line carries the price read at add time, and the total of the order is the sum of
  the subtotals computed at add time.
\<close>

theorem add_to_cart_snapshots_price:
  assumes book: "filter (\<lambda>r. BookID r = b) (Books (db st)) = book # others"
  shows "add_to_cart (Some b) s st =
           (case py_int s of
              Inl e \<Rightarrow> ([Failed_to_add_to_cart e], st)
            | Inr Q \<Rightarrow>
                if Q \<le> 0 then ([Quantity_must_be_positive], st)
                else if Quantity book < Q
                then ([Only_available_in_stock (Quantity book)], fetch st)
                else ([], fetch st\<lparr>cart_tree := cart_tree st @
                            [\<lparr>cart_book_id = b, cart_book_name = BookName book,
                              cart_quantity = Q, cart_price = Price book,
                              cart_subtotal = Price book * Q\<rparr>]\<rparr>))
       \<and> (py_int s = Inr Q \<and> 0 < Q \<and> Q \<le> Quantity book
            \<and> cart_tree st1 = cart_tree (snd (add_to_cart (Some b) s st))
            \<and> place_order (Some c) status now st1 = ([Order_placed_successfully oid status], st2)
          \<longrightarrow> Orders (db st2) = Orders (db st1) @
                  [\<lparr>OrderID = oid, o_CustomerID = c, o_StaffID = session_id (current_staff st1),
                    OrderDate = now,
                    TotalAmount = sum_list (map cart_subtotal (cart_tree st)) + Price book * Q,
                    Status = status\<rparr>]
              \<and> OrderItems (db st2) = OrderItems (db st1) @ map (item_of oid) (cart_tree st) @
                  [\<lparr>oi_OrderID = oid, oi_BookID = b, oi_Quantity = Q, oi_Price = Price book\<rparr>])"
proof (intro conjI impI)
  show add: "add_to_cart (Some b) s st =
           (case py_int s of
              Inl e \<Rightarrow> ([Failed_to_add_to_cart e], st)
            | Inr Q \<Rightarrow>
                if Q \<le> 0 then ([Quantity_must_be_positive], st)
                else if Quantity book < Q
                then ([Only_available_in_stock (Quantity book)], fetch st)
                else ([], fetch st\<lparr>cart_tree := cart_tree st @
                            [\<lparr>cart_book_id = b, cart_book_name = BookName book,
                              cart_quantity = Q, cart_price = Price book,
                              cart_subtotal = Price book * Q\<rparr>]\<rparr>))"
    by (simp add: add_to_cart_def book split: sum.splits)
  assume a: "py_int s = Inr Q \<and> 0 < Q \<and> Q \<le> Quantity book
            \<and> cart_tree st1 = cart_tree (snd (add_to_cart (Some b) s st))
            \<and> place_order (Some c) status now st1 = ([Order_placed_successfully oid status], st2)"
  then have cart: "cart_tree st1 = cart_tree st @
                            [\<lparr>cart_book_id = b, cart_book_name = BookName book,
                              cart_quantity = Q, cart_price = Price book,
                              cart_subtotal = Price book * Q\<rparr>]"
    by (simp add: add)
  from a have placed:
    "place_order (Some c) status now st1 = ([Order_placed_successfully oid status], st2)"
    by simp
  from place_order_success [OF placed] cart
  show "Orders (db st2) = Orders (db st1) @
                  [\<lparr>OrderID = oid, o_CustomerID = c, o_StaffID = session_id (current_staff st1),
                    OrderDate = now,
                    TotalAmount = sum_list (map cart_subtotal (cart_tree st)) + Price book * Q,
                    Status = status\<rparr>]"
    by simp
  from place_order_success [OF placed] cart
  show "OrderItems (db st2) = OrderItems (db st1) @ map (item_of oid) (cart_tree st) @
                  [\<lparr>oi_OrderID = oid, oi_BookID = b, oi_Quantity = Q, oi_Price = Price book\<rparr>]"
    by (simp add: item_of_def)
qed

lemma place_order_repriced:
  "place_order (Some 1) Completed 20 repriced
     = ([Order_placed_successfully 1 Completed], snd (place_order (Some 1) Completed 20 repriced))"
  by (simp add: repriced_def after_first_click place_order_def desk_def shop_def
        emma_def ulysses_def three_emmas_def admin_def clerk_def admin_session_def
        insert_into_Orders_def in_DECIMAL_10_2_def insert_into_OrderItems_def item_of_def
        update_Books_Quantity_def)

text \<open>
  Three copies are added at 19.99; the catalogue price is raised to 25.00; the order that
  is placed then has the line at 19.99 and the total 59.97.
\<close>

theorem add_to_cart_snapshots_price_witness:
  "filter (\<lambda>r. BookID r = 7) (Books (db desk)) = [emma]
   \<and> add_to_cart (Some 7) [51] desk = ([], fetch desk\<lparr>cart_tree := [three_emmas]\<rparr>)
   \<and> map Price (filter (\<lambda>r. BookID r = 7) (Books (db repriced))) = [2500]
   \<and> cart_tree repriced = [three_emmas]
   \<and> Orders (db (snd (place_order (Some 1) Completed 20 repriced)))
       = [\<lparr>OrderID = 1, o_CustomerID = 1, o_StaffID = 1, OrderDate = 20,
           TotalAmount = 5997, Status = Completed\<rparr>]
   \<and> OrderItems (db (snd (place_order (Some 1) Completed 20 repriced)))
       = [\<lparr>oi_OrderID = 1, oi_BookID = 7, oi_Quantity = 3, oi_Price = 1999\<rparr>]"
proof -
  have f: "filter (\<lambda>r. BookID r = 7) (Books (db desk)) = [emma]"
    by (simp add: desk_def shop_def emma_def ulysses_def)
  have added: "snd (add_to_cart (Some 7) [51] desk) = desk\<lparr>cart_tree := [three_emmas]\<rparr>"
    using with_three_emmas by (simp add: with_three_emmas_def)
  have c: "cart_tree repriced = cart_tree (snd (add_to_cart (Some 7) [51] desk))"
    unfolding added by (simp add: repriced_def after_first_click)
  have q: "0 < (3::int)" "3 \<le> Quantity emma"
    by (simp_all add: emma_def)
  note t = add_to_cart_snapshots_price
             [OF f, of "[51]" 3 repriced 1 Completed 20 1
                "snd (place_order (Some 1) Completed 20 repriced)"]
  from t have a1: "add_to_cart (Some 7) [51] desk =
       ([], fetch desk\<lparr>cart_tree := cart_tree desk @
                            [\<lparr>cart_book_id = 7, cart_book_name = BookName emma,
                              cart_quantity = 3, cart_price = Price emma,
                              cart_subtotal = Price emma * 3\<rparr>]\<rparr>)"
    using q by (simp add: py_int_3)
  from t py_int_3 q c place_order_repriced
  have a2: "Orders (db (snd (place_order (Some 1) Completed 20 repriced)))
       = Orders (db repriced) @
                  [\<lparr>OrderID = 1, o_CustomerID = 1, o_StaffID = session_id (current_staff repriced),
                    OrderDate = 20,
                    TotalAmount = sum_list (map cart_subtotal (cart_tree desk)) + Price emma * 3,
                    Status = Completed\<rparr>]
     \<and> OrderItems (db (snd (place_order (Some 1) Completed 20 repriced)))
       = OrderItems (db repriced) @ map (item_of 1) (cart_tree desk) @
                  [\<lparr>oi_OrderID = 1, oi_BookID = 7, oi_Quantity = 3, oi_Price = Price emma\<rparr>]"
    by blast
  have r: "Orders (db repriced) = []" "OrderItems (db repriced) = []"
    "session_id (current_staff repriced) = 1" "cart_tree desk = []"
    "cart_tree repriced = [three_emmas]"
    "map Price (filter (\<lambda>r. BookID r = 7) (Books (db repriced))) = [2500]"
    by (simp_all add: repriced_def after_first_click desk_def shop_def admin_session_def
          emma_def ulysses_def)
  from a1 a2 f r show ?thesis
    by (simp add: emma_def three_emmas_def)
qed

section \<open>Deleting a book\<close>







text \<open>
  What is left of the trigger's entry: BookLog.BookID references Books
  \<open>ON DELETE CASCADE\<close>, so the entry written before the delete goes with the book.
\<close>

lemma delete_book_log_cascaded:
  "BookLog (db (snd (delete_selected_book (Some 3) True desk))) = []"
  by (simp add: delete_selected_book_def delete_from_Books_def BeforeBookDelete_def
        first_manager_def desk_def shop_def admin_def clerk_def emma_def ulysses_def
        fetch_def commit_def)

section \<open>The numeric validators\<close>

lemma digitpart_head:
  "digitpart s = Some n \<Longrightarrow> s \<noteq> [] \<and> py_decimal (hd s) \<noteq> None"
  by (cases s) (auto simp: digitpart_def split: option.splits)

lemma float_number_head:
  assumes "float_number s = Some x"
  shows "s \<noteq> [] \<and> (hd s = 46 \<or> py_decimal (hd s) \<noteq> None)"
proof (cases "takeWhile (\<lambda>c. c \<noteq> 46) s = []")
  case True
  show ?thesis
  proof (cases s)
    case Nil
    with assms show ?thesis
      by (simp add: float_number_def digitpart_def)
  next
    case (Cons c cs)
    with True have "c = 46"
      by (simp split: if_splits)
    with Cons show ?thesis by simp
  qed
next
  case False
  then obtain c cs where s: "s = c # cs" and c: "c \<noteq> 46"
    by (cases s) (auto split: if_splits)
  then have w: "takeWhile (\<lambda>c. c \<noteq> 46) s = c # takeWhile (\<lambda>c. c \<noteq> 46) cs"
    by simp
  from assms obtain n where "digitpart (takeWhile (\<lambda>c. c \<noteq> 46) s) = Some n"
    using False
    by (auto simp: float_number_def Let_def split: list.splits option.splits if_splits)
  from digitpart_head [OF this] w s show ?thesis by simp
qed

lemma float_literal_head:
  assumes "float_literal s = Some x"
  shows "s \<noteq> [] \<and> (hd s = 46 \<or> py_decimal (hd s) \<noteq> None)"
proof -
  let ?m = "takeWhile (\<lambda>c. \<not> (c = 101 \<or> c = 69)) s"
  from assms obtain y where "float_number ?m = Some y"
    by (auto simp: float_literal_def Let_def split: option.splits)
  from float_number_head [OF this] have m: "?m \<noteq> []" "hd ?m = 46 \<or> py_decimal (hd ?m) \<noteq> None"
    by simp_all
  from m(1) obtain c cs where s: "s = c # cs"
    by (cases s) auto
  with m(1) have "hd ?m = c"
    by (simp split: if_splits)
  with m(2) s show ?thesis by simp
qed

lemma py_decimal_letters:
  "py_decimal 105 = None" "py_decimal 73 = None" "py_decimal 110 = None" "py_decimal 78 = None"
  by (simp_all add: py_decimal_def decimal_zeros_def)

lemma ascii_lower_105: "ascii_lower c = 105 \<Longrightarrow> c = 105 \<or> c = 73"
  by (auto simp: ascii_lower_def split: if_splits)

lemma ascii_lower_110: "ascii_lower c = 110 \<Longrightarrow> c = 110 \<or> c = 78"
  by (auto simp: ascii_lower_def split: if_splits)

lemma named_value_no_literal:
  assumes "map ascii_lower body = 105 # w \<or> map ascii_lower body = 110 # w"
  shows "float_literal body = None"
proof (cases "float_literal body")
  case None
  then show ?thesis .
next
  case (Some x)
  from assms obtain c cs where b: "body = c # cs" and c: "ascii_lower c = 105 \<or> ascii_lower c = 110"
    by (cases body) auto
  from c have "c = 105 \<or> c = 73 \<or> c = 110 \<or> c = 78"
    using ascii_lower_105 ascii_lower_110 by blast
  then have "c \<noteq> 46 \<and> py_decimal c = None"
    using py_decimal_letters by auto
  with float_literal_head [OF Some] b show ?thesis by simp
qed

lemma float_ge_zero_num:
  "float_ge_zero (Float_num neg m e)
     \<longleftrightarrow> (m = 0 \<or> \<not> neg) \<or> (neg \<and> e < 0 \<and> m * 2 ^ 1075 \<le> 10 ^ nat (- e))"
  by auto

text \<open>
  Claim C8, as amended. Neither validator raises: each returns a boolean for every
  string. \<open>validate_price\<close> returns True exactly when the string parses to a decimal
  number that is not negative, or to a negative one that the double rounds to zero, or
  names positive infinity. \<open>validate_quantity\<close> returns True exactly when the string
  parses to a strictly positive integer written with at most 4300 digits.
\<close>

theorem validators_price_quantity:
  "validate_price s
     = Inr (parses_to_nonnegative_decimal s \<or> rounds_to_minus_zero s
            \<or> names_positive_infinity s)
   \<and> validate_quantity s
     = Inr (parses_to_positive_integer s \<and> digit_count s \<le> 4300)"
proof
  obtain neg body where sp: "split_sign (number_strip s) = (neg, body)"
    by (cases "split_sign (number_strip s)") auto
  let ?word = "map ascii_lower body"
  consider (inf) "?word = [105, 110, 102] \<or> ?word = [105, 110, 102, 105, 110, 105, 116, 121]"
    | (nan) "?word = [110, 97, 110]"
    | (num) "?word \<noteq> [105, 110, 102]" "?word \<noteq> [105, 110, 102, 105, 110, 105, 116, 121]"
        "?word \<noteq> [110, 97, 110]"
    by blast
  then show "validate_price s
     = Inr (parses_to_nonnegative_decimal s \<or> rounds_to_minus_zero s
            \<or> names_positive_infinity s)"
  proof cases
    case inf
    then obtain w where "map ascii_lower body = 105 # w"
      by auto
    then have "float_literal body = None"
      by (simp add: named_value_no_literal)
    then have "decimal_number s = None"
      by (simp add: decimal_number_def sp)
    with inf show ?thesis
      by (auto simp: validate_price_def py_float_def sp parses_to_nonnegative_decimal_def
            rounds_to_minus_zero_def names_positive_infinity_def)
  next
    case nan
    then have "float_literal body = None"
      by (simp add: named_value_no_literal)
    then have "decimal_number s = None"
      by (simp add: decimal_number_def sp)
    with nan show ?thesis
      by (auto simp: validate_price_def py_float_def sp parses_to_nonnegative_decimal_def
            rounds_to_minus_zero_def names_positive_infinity_def)
  next
    case num
    show ?thesis
    proof (cases "float_literal body")
      case None
      with num show ?thesis
        by (simp add: validate_price_def py_float_def sp parses_to_nonnegative_decimal_def
              rounds_to_minus_zero_def names_positive_infinity_def decimal_number_def)
    next
      case (Some x)
      obtain m e where x: "x = (m, e)" by (cases x)
      with Some num show ?thesis
        by (simp add: validate_price_def py_float_def sp parses_to_nonnegative_decimal_def
              rounds_to_minus_zero_def names_positive_infinity_def decimal_number_def
              float_ge_zero_num del: float_ge_zero.simps)
    qed
  qed
  show "validate_quantity s
     = Inr (parses_to_positive_integer s \<and> digit_count s \<le> 4300)"
    by (cases "digitpart body")
      (auto simp: validate_quantity_def py_int_def sp parses_to_positive_integer_def
          integer_number_def digit_count_def)
qed

lemma decimal_number_19_99: "decimal_number [49, 57, 46, 57, 57] = Some (False, 1999, - 2)"
  by (simp add: decimal_number_def number_strip_def number_space_def py_isspace_def
        split_sign_def float_literal_def float_number_def fraction_digits_def digitpart_def
        py_decimal_def decimal_zeros_def Let_def)

lemma integer_number_3: "integer_number [51] = Some 3"
  by (simp add: integer_number_def number_strip_def number_space_def py_isspace_def
        split_sign_def digitpart_def py_decimal_def decimal_zeros_def Let_def)

text \<open>The price "19.99" and the quantity "3" are accepted.\<close>

theorem validators_price_quantity_witness:
  "parses_to_nonnegative_decimal [49, 57, 46, 57, 57]
   \<and> validate_price [49, 57, 46, 57, 57] = Inr True
   \<and> parses_to_positive_integer [51] \<and> digit_count [51] \<le> 4300
   \<and> validate_quantity [51] = Inr True"
  using validators_price_quantity [of "[49, 57, 46, 57, 57]"]
        validators_price_quantity [of "[51]"]
  by (simp add: parses_to_nonnegative_decimal_def decimal_number_19_99
        parses_to_positive_integer_def integer_number_3 digit_count_def number_strip_def
        number_space_def py_isspace_def split_sign_def)

text \<open>
  Claim C8 as it is written does not hold: "inf" does not parse to a decimal number,
  and \<open>validate_price\<close> returns True for it, since \<open>float\<close> reads it as infinity.
\<close>

theorem validate_price_accepts_inf:
  "validate_price [105, 110, 102] = Inr True
   \<and> decimal_number [105, 110, 102] = None
   \<and> parses_to_nonnegative_decimal [105, 110, 102] = False"
  by (simp add: validate_price_def py_float_def parses_to_nonnegative_decimal_def
        decimal_number_def number_strip_def number_space_def py_isspace_def split_sign_def
        ascii_lower_def float_literal_def float_number_def digitpart_def py_decimal_def
        decimal_zeros_def Let_def)

end
